theory Spec2Isabelle
  imports Main
begin

section \<open>JavaScript strings\<close>

text \<open>
  A JavaScript string is a sequence of UTF-16 code units; a code unit is a \<open>nat\<close> here.
  The literals of the source are ASCII apart from three symbols of the messages, which
  are one code unit each.
\<close>

type_synonym jsstring = "nat list"

definition ascii :: "string \<Rightarrow> jsstring" where
  "ascii s = map of_char s"

definition cross_mark :: nat where "cross_mark = 0x274C"
definition hourglass :: nat where "hourglass = 0x23F3"
definition check_mark :: nat where "check_mark = 0x2713"

text \<open>
  \<open>String.prototype.trim\<close> removes the white space and line terminators of ECMAScript
  from both ends.
\<close>

definition is_white_space :: "nat \<Rightarrow> bool" where
  "is_white_space c \<longleftrightarrow>
     c = 0x9 \<or> c = 0xA \<or> c = 0xB \<or> c = 0xC \<or> c = 0xD \<or> c = 0x20 \<or> c = 0xA0 \<or>
     c = 0x1680 \<or> (0x2000 \<le> c \<and> c \<le> 0x200A) \<or> c = 0x2028 \<or> c = 0x2029 \<or>
     c = 0x202F \<or> c = 0x205F \<or> c = 0x3000 \<or> c = 0xFEFF"

definition trim :: "jsstring \<Rightarrow> jsstring" where
  "trim s = rev (dropWhile is_white_space (rev (dropWhile is_white_space s)))"

text \<open>A string is truthy when it is not empty; \<open>null\<close> and \<open>undefined\<close> are \<open>None\<close>.\<close>

definition truthy :: "jsstring option \<Rightarrow> bool" where
  "truthy v = (case v of None \<Rightarrow> False | Some s \<Rightarrow> s \<noteq> [])"

text \<open>
  \<open>String.prototype.toLowerCase\<close>, on the code units whose lower-case form holds an
  ASCII letter: the capital letters A to Z, KELVIN SIGN (which lower-cases to k) and
  capital I with dot above (which lower-cases to i followed by a combining dot). Every
  other code unit is kept: the Unicode table sends it to text without an ASCII letter,
  so whether the result is one of the ASCII names of \<open>getProviderURL\<close> is not changed.
\<close>

definition lower_unit :: "nat \<Rightarrow> jsstring" where
  "lower_unit c =
     (if 0x41 \<le> c \<and> c \<le> 0x5A then [c + 0x20]
      else if c = 0x212A then [0x6B]
      else if c = 0x130 then [0x69, 0x307]
      else [c])"

definition toLowerCase :: "jsstring \<Rightarrow> jsstring" where
  "toLowerCase s = concat (map lower_unit s)"

text \<open>The decimal text of a non-negative integer, as a template literal prints it.\<close>

fun dec :: "nat \<Rightarrow> jsstring" where
  "dec n = (if n < 10 then [0x30 + n] else dec (n div 10) @ [0x30 + n mod 10])"

declare dec.simps [simp del]

section \<open>Errors, responses and the browser\<close>

datatype js_error =
    Error jsstring
  | TypeError jsstring
  | ReferenceError jsstring
  | SyntaxError jsstring

fun message :: "js_error \<Rightarrow> jsstring" where
  "message (Error m) = m"
| "message (TypeError m) = m"
| "message (ReferenceError m) = m"
| "message (SyntaxError m) = m"

text \<open>
  What \<open>await response.json()\<close> gives: it rejects, or it is \<open>null\<close> (reading a field
  of it throws), or it is a value whose fields can be read.
\<close>

datatype 'a json = JsonThrows js_error | JsonNull | JsonValue 'a

text \<open>
  What \<open>await fetch(...)\<close> gives: the promise rejects (the network failed), or it
  resolves to a response with a status and a body. \<open>response.ok\<close> is true for the
  statuses 200 to 299.
\<close>

datatype 'a fetch_result = Rejected js_error | Resolved nat "'a json"

definition response_ok :: "nat \<Rightarrow> bool" where
  "response_ok status \<longleftrightarrow> 200 \<le> status \<and> status \<le> 299"

definition null_read :: "string \<Rightarrow> js_error" where
  "null_read field =
     TypeError (ascii ''Cannot read properties of null (reading '' @ [0x27] @ ascii field
                @ [0x27] @ ascii '')'')"

text \<open>A request is the URL given to \<open>fetch\<close> and the fields of its JSON body.\<close>

record request =
  endpoint :: string
  credentials_include :: bool
  body :: "(string \<times> jsstring) list"

text \<open>One record of \<open>activeModels\<close>; its key may be \<open>null\<close>.\<close>

record model_instance =
  m_id :: jsstring
  m_name :: jsstring
  m_provider :: jsstring
  m_icon :: jsstring
  m_url :: jsstring
  m_encryptedApiKey :: "jsstring option"

text \<open>
  A URL object: the text it was parsed from and the search parameters appended to it.
\<close>

record url_object =
  href :: jsstring
  appended :: "(string \<times> jsstring) list"

datatype timer = ReloadPage | ResetAddForm

text \<open>One chat container of the document: its \<open>data-model\<close> attribute and whether its
  style says \<open>display: none\<close>.\<close>

record dom_node =
  data_model :: jsstring
  display_none :: bool

text \<open>
  The browser outside React: the requests issued so far, the two entries of
  localStorage (the \<open>activeModels\<close> entry holds the list whose JSON text is stored), the
  console, the exceptions no handler caught, the timers set, the tabs opened, the
  alerts shown, the reloads asked for, the chat containers in document order, and
  whether a script has set \<open>display: none\<close> on an element that is not a chat container.
\<close>

record browser =
  requests :: "request list"
  ls_apiKeyConsent :: "jsstring option"
  ls_activeModels :: "model_instance list option"
  console :: "(jsstring \<times> js_error) list"
  uncaught :: "js_error list"
  timeouts :: "(timer \<times> nat) list"
  opened :: "(url_object \<times> string) list"
  alerts :: "jsstring list"
  reloads :: nat
  containers :: "dom_node list"
  hidden_elsewhere :: bool

definition post :: "request \<Rightarrow> browser \<Rightarrow> browser" where
  "post r br = br\<lparr>requests := requests br @ [r]\<rparr>"

definition console_error :: "jsstring \<Rightarrow> js_error \<Rightarrow> browser \<Rightarrow> browser" where
  "console_error label e br = br\<lparr>console := console br @ [(label, e)]\<rparr>"

section \<open>The helpers of the coordinator\<close>

text \<open>An entry of a provider's model list: a string, or an object with a name.\<close>

datatype model_entry = ModelString jsstring | ModelObject jsstring

text \<open>
  \<open>fetchProviderModels\<close>. The body of the response is the value of its \<open>models\<close>
  field: \<open>None\<close> when the field is missing or falsy, the array otherwise.
\<close>

definition fetchProviderModels_try ::
  "model_entry list option fetch_result \<Rightarrow> js_error + model_entry list" where
  "fetchProviderModels_try r =
     (case r of
        Rejected e \<Rightarrow> Inl e
      | Resolved status b \<Rightarrow>
          if \<not> response_ok status
          then Inl (Error (ascii ''HTTP error! status: '' @ dec status))
          else (case b of
                  JsonThrows e \<Rightarrow> Inl e
                | JsonNull \<Rightarrow> Inl (null_read ''models'')
                | JsonValue models \<Rightarrow>
                    Inr (case models of Some ms \<Rightarrow> ms | None \<Rightarrow> [])))"

definition fetchProviderModels ::
  "jsstring \<Rightarrow> model_entry list option fetch_result \<Rightarrow> browser
     \<Rightarrow> (js_error + model_entry list) \<times> browser" where
  "fetchProviderModels providerName r br =
     (let br1 = post \<lparr>endpoint = ''/api/models/provider'', credentials_include = False,
                      body = [(''provider'', providerName)]\<rparr> br
      in case fetchProviderModels_try r of
           Inr ms \<Rightarrow> (Inr ms, br1)
         | Inl e \<Rightarrow> (Inr [], console_error (ascii ''Error fetching models:'') e br1))"

text \<open>\<open>saveProviderApiKey\<close>: the result object is \<open>{success, data}\<close> or \<open>{success, error}\<close>.\<close>

datatype save_result = SaveOk | SaveFailed jsstring

definition saveProviderApiKey_try :: "unit fetch_result \<Rightarrow> js_error + save_result" where
  "saveProviderApiKey_try r =
     (case r of
        Rejected e \<Rightarrow> Inl e
      | Resolved status b \<Rightarrow>
          if \<not> response_ok status
          then Inl (Error (ascii ''HTTP error! status: '' @ dec status))
          else (case b of
                  JsonThrows e \<Rightarrow> Inl e
                | JsonNull \<Rightarrow> Inr SaveOk
                | JsonValue d \<Rightarrow> Inr SaveOk))"

definition saveProviderApiKey ::
  "jsstring \<Rightarrow> jsstring \<Rightarrow> unit fetch_result \<Rightarrow> browser
     \<Rightarrow> (js_error + save_result) \<times> browser" where
  "saveProviderApiKey provider apiKey r br =
     (let br1 = post \<lparr>endpoint = ''/api/keys/save'', credentials_include = True,
                      body = [(''provider'', provider), (''apiKey'', apiKey)]\<rparr> br
      in case saveProviderApiKey_try r of
           Inr res \<Rightarrow> (Inr res, br1)
         | Inl e \<Rightarrow>
             (Inr (SaveFailed (message e)),
              console_error (ascii ''Error saving API key:'') e br1))"

text \<open>
  \<open>fetchProviderApiKey\<close>. The body of the response is the value of its \<open>apiKey\<close>
  field, \<open>None\<close> when the field is missing or \<open>null\<close>.
\<close>

definition fetchProviderApiKey_try ::
  "jsstring option fetch_result \<Rightarrow> js_error + jsstring option" where
  "fetchProviderApiKey_try r =
     (case r of
        Rejected e \<Rightarrow> Inl e
      | Resolved status b \<Rightarrow>
          if \<not> response_ok status
          then Inl (Error (ascii ''HTTP error! status: '' @ dec status))
          else (case b of
                  JsonThrows e \<Rightarrow> Inl e
                | JsonNull \<Rightarrow> Inl (null_read ''apiKey'')
                | JsonValue apiKey \<Rightarrow> Inr (if truthy apiKey then apiKey else None)))"

definition fetchProviderApiKey ::
  "jsstring \<Rightarrow> jsstring option fetch_result \<Rightarrow> browser
     \<Rightarrow> (js_error + jsstring option) \<times> browser" where
  "fetchProviderApiKey provider r br =
     (let br1 = post \<lparr>endpoint = ''/api/keys/get'', credentials_include = True,
                      body = [(''provider'', provider)]\<rparr> br
      in case fetchProviderApiKey_try r of
           Inr k \<Rightarrow> (Inr k, br1)
         | Inl e \<Rightarrow> (Inr None, console_error (ascii ''Error fetching API key:'') e br1))"

text \<open>\<open>getProviderURL\<close>: the switch on the lower-cased name, in the order of the source.\<close>

definition getProviderURL :: "jsstring \<Rightarrow> js_error + jsstring" where
  "getProviderURL providerName =
     (let l = toLowerCase providerName in
      if l = ascii ''openai'' then Inr (ascii ''https://chatgpt.com/c/?prompt='')
      else if l = ascii ''claude'' then Inr (ascii ''https://claude.ai/new?q='')
      else if l = ascii ''cohere''
        then Inr (ascii ''https://dashboard.cohere.com/playground/chat?q='')
      else if l = ascii ''copilot'' then Inr (ascii ''https://copilot.microsoft.com/?q='')
      else if l = ascii ''deepseek'' then Inr (ascii ''https://chat.deepseek.com/?q='')
      else if l = ascii ''gemini''
        then Inr (ascii ''https://aistudio.google.com/prompts/new_chat?prompt='')
      else if l = ascii ''grok'' then Inr (ascii ''https://grok.com/?q='')
      else if l = ascii ''llama'' then Inr (ascii ''https://llama.online/chat#'')
      else if l = ascii ''mistral''
        then Inr (ascii ''https://console.mistral.ai/build/playground?from=agents#'')
      else if l = ascii ''qwen'' then Inr (ascii ''https://chat.qwen.ai/?text='')
      else Inl (Error (ascii ''Unsupported provider: '' @ providerName)))"


section \<open>The coordinator: \<open>App\<close>\<close>

text \<open>
  What the module takes from outside: the icons found in the assets folder, the clock
  (the value of \<open>Date.now()\<close> at the i-th call) and the random suffix
  \<open>Math.random().toString(36).substr(2, 5)\<close> of the i-th call.
\<close>

record icon_entry =
  icon_path :: jsstring
  icon_name :: jsstring

record env =
  icons :: "icon_entry list"
  date_now :: "nat \<Rightarrow> nat"
  random_suffix :: "nat \<Rightarrow> jsstring"

record app_state =
  hasConsented :: bool
  showConsentModal :: bool
  masterPrompt :: jsstring
  activeModels :: "model_instance list"
  showAddModal :: bool
  isStarted :: bool
  triggerSend :: nat
  selectedProvider :: "jsstring option"
  availableModels :: "model_entry list"
  loadingModels :: bool
  selectedModel :: "model_entry option"
  apiKeyInput :: jsstring
  savingApiKey :: bool
  saveMessage :: jsstring
  instanceCount :: nat

definition initial_app :: app_state where
  "initial_app =
     \<lparr>hasConsented = False, showConsentModal = False, masterPrompt = [],
      activeModels = [], showAddModal = False, isStarted = False, triggerSend = 0,
      selectedProvider = None, availableModels = [], loadingModels = False,
      selectedModel = None, apiKeyInput = [], savingApiKey = False, saveMessage = [],
      instanceCount = 1\<rparr>"

text \<open>The two effects that run once when \<open>App\<close> mounts.\<close>

definition load_consent :: "app_state \<times> browser \<Rightarrow> app_state \<times> browser" where
  "load_consent = (\<lambda>(s, br).
     if ls_apiKeyConsent br = Some (ascii ''true'')
     then (s\<lparr>hasConsented := True\<rparr>, br)
     else (s\<lparr>showConsentModal := True\<rparr>, br))"

definition load_active_models :: "app_state \<times> browser \<Rightarrow> app_state \<times> browser" where
  "load_active_models = (\<lambda>(s, br).
     let savedModels = (case ls_activeModels br of None \<Rightarrow> [] | Some ms \<Rightarrow> ms)
     in if length savedModels > 0 then (s\<lparr>activeModels := savedModels\<rparr>, br) else (s, br))"

text \<open>
  The effect that loads the keys of the records that have none. \<open>rs i\<close> is what the
  i-th request gives; the \<open>Map\<close> keeps the last key of an identifier.
\<close>

fun fetch_keys ::
  "model_instance list \<Rightarrow> (nat \<Rightarrow> jsstring option fetch_result) \<Rightarrow> nat \<Rightarrow> browser
     \<Rightarrow> (jsstring \<times> jsstring option) list \<times> browser" where
  "fetch_keys [] rs i br = ([], br)"
| "fetch_keys (m # ms) rs i br =
     (case fetchProviderApiKey (m_provider m) (rs i) br of
        (Inr apiKey, br1) \<Rightarrow>
          (case fetch_keys ms rs (Suc i) br1 of (ks, br2) \<Rightarrow> ((m_id m, apiKey) # ks, br2))
      | (Inl e, br1) \<Rightarrow> ([], br1\<lparr>uncaught := uncaught br1 @ [e]\<rparr>))"

definition loadKeysForModels ::
  "(nat \<Rightarrow> jsstring option fetch_result) \<Rightarrow> app_state \<times> browser \<Rightarrow> app_state \<times> browser" where
  "loadKeysForModels rs = (\<lambda>(s, br).
     if \<not> hasConsented s then (s, br)
     else if activeModels s = [] then (s, br)
     else
       let modelsNeedingKeys = filter (\<lambda>m. \<not> truthy (m_encryptedApiKey m)) (activeModels s)
       in if modelsNeedingKeys = [] then (s, br)
          else (case fetch_keys modelsNeedingKeys rs 0 br of
                  (updatedKeys, br1) \<Rightarrow>
                    let keyMap = map_of (rev updatedKeys)
                    in (s\<lparr>activeModels :=
                            map (\<lambda>m. case keyMap (m_id m) of
                                        Some k \<Rightarrow> m\<lparr>m_encryptedApiKey := k\<rparr>
                                      | None \<Rightarrow> m)
                                (activeModels s)\<rparr>, br1)))"

definition handleConsent :: "app_state \<times> browser \<Rightarrow> app_state \<times> browser" where
  "handleConsent = (\<lambda>(s, br).
     (s\<lparr>hasConsented := True, showConsentModal := False\<rparr>,
      br\<lparr>ls_apiKeyConsent := Some (ascii ''true'')\<rparr>))"

definition handleReject :: "app_state \<times> browser \<Rightarrow> app_state \<times> browser" where
  "handleReject = (\<lambda>(s, br).
     (s, br\<lparr>ls_apiKeyConsent := None, reloads := Suc (reloads br)\<rparr>))"

definition handleMasterPromptChange :: "jsstring \<Rightarrow> app_state \<Rightarrow> app_state" where
  "handleMasterPromptChange v s =
     (let s1 = s\<lparr>masterPrompt := v\<rparr>
      in if trim v \<noteq> [] \<and> \<not> isStarted s then s1\<lparr>isStarted := True\<rparr> else s1)"

definition handleSendMasterPrompt :: "app_state \<Rightarrow> app_state" where
  "handleSendMasterPrompt s =
     (if trim (masterPrompt s) \<noteq> []
      then (if \<not> isStarted s then s\<lparr>isStarted := True\<rparr> else s)
             \<lparr>triggerSend := triggerSend s + 1\<rparr>
      else s)"

definition handleKeyPress :: "jsstring \<Rightarrow> app_state \<Rightarrow> app_state" where
  "handleKeyPress key s = (if key = ascii ''Enter'' then handleSendMasterPrompt s else s)"

definition handleAddModel :: "app_state \<Rightarrow> app_state" where
  "handleAddModel s = s\<lparr>showAddModal := True\<rparr>"

definition handleCloseAddModal :: "app_state \<Rightarrow> app_state" where
  "handleCloseAddModal s =
     s\<lparr>showAddModal := False, selectedProvider := None, availableModels := [],
       selectedModel := None, apiKeyInput := [], saveMessage := [], instanceCount := 1\<rparr>"

definition handleIconSelect ::
  "jsstring \<Rightarrow> model_entry list option fetch_result \<Rightarrow> app_state \<times> browser
     \<Rightarrow> app_state \<times> browser" where
  "handleIconSelect iconName r = (\<lambda>(s, br).
     let s1 = s\<lparr>selectedProvider := Some iconName, selectedModel := None,
                 apiKeyInput := [], saveMessage := [], loadingModels := True\<rparr>
     in case fetchProviderModels iconName r br of
          (Inr models, br1) \<Rightarrow> (s1\<lparr>availableModels := models, loadingModels := False\<rparr>, br1)
        | (Inl e, br1) \<Rightarrow> (s1, br1\<lparr>uncaught := uncaught br1 @ [e]\<rparr>))"

definition handleModelSelect :: "model_entry \<Rightarrow> app_state \<Rightarrow> app_state" where
  "handleModelSelect model s =
     s\<lparr>selectedModel := Some model, apiKeyInput := [], saveMessage := []\<rparr>"

text \<open>
  \<open>Array.from({length: n}, f)\<close>: the callback runs for 0, 1, ... and the first
  exception it throws ends the call.
\<close>

fun collect :: "(nat \<Rightarrow> js_error + 'a) \<Rightarrow> nat list \<Rightarrow> js_error + 'a list" where
  "collect f [] = Inr []"
| "collect f (i # is) =
     (case f i of
        Inl e \<Rightarrow> Inl e
      | Inr x \<Rightarrow> (case collect f is of Inl e \<Rightarrow> Inl e | Inr xs \<Rightarrow> Inr (x # xs)))"

definition Array_from :: "nat \<Rightarrow> (nat \<Rightarrow> js_error + 'a) \<Rightarrow> js_error + 'a list" where
  "Array_from n f = collect f [0..<n]"

definition icon_of :: "env \<Rightarrow> jsstring \<Rightarrow> jsstring" where
  "icon_of e p =
     (case find (\<lambda>i. icon_name i = p) (icons e) of None \<Rightarrow> [] | Some i \<Rightarrow> icon_path i)"

definition model_truthy :: "model_entry \<Rightarrow> bool" where
  "model_truthy m = (case m of ModelString n \<Rightarrow> n \<noteq> [] | ModelObject n \<Rightarrow> True)"

definition new_instance ::
  "env \<Rightarrow> jsstring \<Rightarrow> jsstring \<Rightarrow> jsstring \<Rightarrow> nat \<Rightarrow> js_error + model_instance" where
  "new_instance e sp modelName apiKey i =
     (case getProviderURL sp of
        Inl err \<Rightarrow> Inl err
      | Inr u \<Rightarrow>
          Inr \<lparr>m_id = sp @ ascii ''-'' @ modelName @ ascii ''-'' @ dec (date_now e i)
                      @ ascii ''-'' @ dec i @ ascii ''-'' @ random_suffix e i,
               m_name = modelName, m_provider = sp, m_icon = icon_of e sp, m_url = u,
               m_encryptedApiKey = Some apiKey\<rparr>)"

definition msg_enter_key :: jsstring where
  "msg_enter_key = cross_mark # ascii '' Please enter an API key''"
definition msg_select_model :: jsstring where
  "msg_select_model = cross_mark # ascii '' Please select a model''"
definition msg_saving :: jsstring where
  "msg_saving = hourglass # ascii '' Saving...''"
definition msg_failed :: "jsstring \<Rightarrow> jsstring" where
  "msg_failed e = cross_mark # ascii '' Failed to save: '' @ e"
definition msg_added :: jsstring where
  "msg_added = check_mark # ascii '' Model(s) added successfully!''"

text \<open>
  \<open>handleSaveApiKey\<close>, with what the request to \<open>/api/keys/save\<close> gives as \<open>r\<close>. An
  exception that leaves the handler ends it there; the state set before stays.
\<close>

definition handleSaveApiKey ::
  "env \<Rightarrow> unit fetch_result \<Rightarrow> app_state \<times> browser \<Rightarrow> app_state \<times> browser" where
  "handleSaveApiKey e r = (\<lambda>(s, br).
     if trim (apiKeyInput s) = [] then (s\<lparr>saveMessage := msg_enter_key\<rparr>, br)
     else
       (case (selectedModel s, selectedProvider s) of
          (Some sm, Some sp) \<Rightarrow>
            if \<not> model_truthy sm \<or> sp = [] then (s\<lparr>saveMessage := msg_select_model\<rparr>, br)
            else
              let s1 = s\<lparr>savingApiKey := True, saveMessage := msg_saving\<rparr>
              in (case saveProviderApiKey sp (apiKeyInput s) r br of
                    (Inl err, br1) \<Rightarrow> (s1, br1\<lparr>uncaught := uncaught br1 @ [err]\<rparr>)
                  | (Inr (SaveFailed err), br1) \<Rightarrow>
                      (s1\<lparr>saveMessage := msg_failed err, savingApiKey := False\<rparr>, br1)
                  | (Inr SaveOk, br1) \<Rightarrow>
                      let modelName = (case sm of ModelString n \<Rightarrow> n | ModelObject n \<Rightarrow> n)
                      in (case Array_from (instanceCount s)
                                 (new_instance e sp modelName (apiKeyInput s)) of
                            Inl err \<Rightarrow> (s1, br1\<lparr>uncaught := uncaught br1 @ [err]\<rparr>)
                          | Inr newModels \<Rightarrow>
                              let updated = activeModels s1 @ newModels
                              in (s1\<lparr>activeModels := updated, saveMessage := msg_added,
                                     savingApiKey := False\<rparr>,
                                  br1\<lparr>ls_activeModels := Some updated,
                                      timeouts := timeouts br1 @ [(ResetAddForm, 1500)]\<rparr>)))
        | _ \<Rightarrow> (s\<lparr>saveMessage := msg_select_model\<rparr>, br)))"

text \<open>The callback of the timer that \<open>handleSaveApiKey\<close> sets.\<close>

definition reset_add_form :: "app_state \<Rightarrow> app_state" where
  "reset_add_form s =
     s\<lparr>apiKeyInput := [], selectedModel := None, saveMessage := [], instanceCount := 1\<rparr>"

text \<open>Every event of the coordinator, and the handler or effect it runs.\<close>

datatype app_event =
    LoadConsent
  | LoadActiveModels
  | LoadKeys "nat \<Rightarrow> jsstring option fetch_result"
  | ClickAccept
  | ClickReject
  | MasterPromptChange jsstring
  | MasterKeyDown jsstring
  | ClickAddModel
  | ClickCloseAddModal
  | ClickIcon jsstring "model_entry list option fetch_result"
  | ClickModel model_entry
  | ApiKeyChange jsstring
  | ClickSave "unit fetch_result"
  | AddFormTimer

fun app_step :: "env \<Rightarrow> app_event \<Rightarrow> app_state \<times> browser \<Rightarrow> app_state \<times> browser" where
  "app_step e LoadConsent sb = load_consent sb"
| "app_step e LoadActiveModels sb = load_active_models sb"
| "app_step e (LoadKeys rs) sb = loadKeysForModels rs sb"
| "app_step e ClickAccept sb = handleConsent sb"
| "app_step e ClickReject sb = handleReject sb"
| "app_step e (MasterPromptChange v) (s, br) = (handleMasterPromptChange v s, br)"
| "app_step e (MasterKeyDown k) (s, br) = (handleKeyPress k s, br)"
| "app_step e ClickAddModel (s, br) = (handleAddModel s, br)"
| "app_step e ClickCloseAddModal (s, br) = (handleCloseAddModal s, br)"
| "app_step e (ClickIcon n r) sb = handleIconSelect n r sb"
| "app_step e (ClickModel m) (s, br) = (handleModelSelect m s, br)"
| "app_step e (ApiKeyChange v) (s, br) = (s\<lparr>apiKeyInput := v\<rparr>, br)"
| "app_step e (ClickSave r) sb = handleSaveApiKey e r sb"
| "app_step e AddFormTimer (s, br) = (reset_add_form s, br)"

section \<open>The chat widget: \<open>ChatInstance\<close>\<close>

text \<open>
  The props of one instance. \<open>App\<close> passes no \<open>onWinnerSelected\<close>, so the callback
  is \<open>null\<close> and is left out.
\<close>

record chat_props =
  modelName :: jsstring
  modelIcon :: jsstring
  modelIdentifier :: jsstring
  modelUrl :: jsstring
  prop_masterPrompt :: jsstring
  provider :: jsstring
  encryptedApiKey :: "jsstring option"
  hideInputFooter :: bool
  prop_triggerSend :: nat

record chat_state =
  userPrompt :: jsstring
  aiResponse :: jsstring
  isInputHidden :: bool
  showButtons :: bool
  isLoading :: bool
  error :: "jsstring option"

definition initial_chat :: "chat_props \<Rightarrow> chat_state" where
  "initial_chat p =
     \<lparr>userPrompt = prop_masterPrompt p, aiResponse = [],
      isInputHidden = hideInputFooter p, showButtons = False, isLoading = False,
      error = None\<rparr>"

text \<open>
  The effect that fetches the key when the instance mounts. \<open>setEncryptedApiKey\<close> is
  declared nowhere, so the call throws inside the \<open>try\<close> block.
\<close>

definition fetchApiKey_try :: "jsstring option fetch_result \<Rightarrow> js_error + unit" where
  "fetchApiKey_try r =
     (case r of
        Rejected e \<Rightarrow> Inl e
      | Resolved status b \<Rightarrow>
          if response_ok status
          then (case b of
                  JsonThrows e \<Rightarrow> Inl e
                | JsonNull \<Rightarrow> Inl (null_read ''apiKey'')
                | JsonValue apiKey \<Rightarrow>
                    if truthy apiKey
                    then Inl (ReferenceError (ascii ''setEncryptedApiKey is not defined''))
                    else Inr ())
          else Inr ())"

definition fetchApiKey ::
  "chat_props \<Rightarrow> jsstring option fetch_result \<Rightarrow> chat_state \<times> browser
     \<Rightarrow> (js_error + unit) \<times> chat_state \<times> browser" where
  "fetchApiKey p r = (\<lambda>(st, br).
     let br1 = post \<lparr>endpoint = ''/api/keys/get'', credentials_include = False,
                      body = [(''provider'', provider p)]\<rparr> br
     in case fetchApiKey_try r of
          Inr u \<Rightarrow> (Inr (), st, br1)
        | Inl e \<Rightarrow> (Inr (), st, console_error (ascii ''Failed to load API key:'') e br1))"

text \<open>The body of a response of \<open>/api/process\<close>: its \<open>reply\<close> and \<open>error\<close> fields.\<close>

record process_data =
  data_reply :: "jsstring option"
  data_error :: "jsstring option"

definition or_else :: "jsstring option \<Rightarrow> jsstring \<Rightarrow> jsstring" where
  "or_else v d = (case v of None \<Rightarrow> d | Some s \<Rightarrow> if s \<noteq> [] then s else d)"

definition msg_key_missing :: jsstring where
  "msg_key_missing = ascii ''API key missing. Please add it first.''"

definition process_request :: "chat_props \<Rightarrow> chat_state \<Rightarrow> jsstring \<Rightarrow> request" where
  "process_request p st k =
     \<lparr>endpoint = ''/api/process'', credentials_include = False,
      body = [(''modelIdentifier'', modelIdentifier p), (''prompt'', userPrompt st),
              (''encryptedApiKey'', k)]\<rparr>"

text \<open>
  \<open>handleSend\<close> up to its \<open>await\<close>: the two guards, then the request is issued.
  The result says whether a request is now pending.
\<close>

definition handleSend_start ::
  "chat_props \<Rightarrow> chat_state \<times> browser \<Rightarrow> bool \<times> chat_state \<times> browser" where
  "handleSend_start p = (\<lambda>(st, br).
     if trim (userPrompt st) = [] then (False, st, br)
     else (case encryptedApiKey p of
             None \<Rightarrow> (False, st\<lparr>aiResponse := msg_key_missing\<rparr>, br)
           | Some k \<Rightarrow>
               if k = [] then (False, st\<lparr>aiResponse := msg_key_missing\<rparr>, br)
               else (True, st\<lparr>isLoading := True, error := None\<rparr>,
                     post (process_request p st k) br)))"

text \<open>\<open>handleSend\<close> from its \<open>await\<close> on: the rest of \<open>try\<close>, \<open>catch\<close> and \<open>finally\<close>.\<close>

definition handleSend_try :: "process_data fetch_result \<Rightarrow> js_error + jsstring" where
  "handleSend_try r =
     (case r of
        Rejected e \<Rightarrow> Inl e
      | Resolved status b \<Rightarrow>
          (case b of
             JsonThrows e \<Rightarrow> Inl e
           | JsonNull \<Rightarrow>
               Inl (null_read (if \<not> response_ok status then ''error'' else ''reply''))
           | JsonValue d \<Rightarrow>
               if \<not> response_ok status
               then Inr (or_else (data_error d) (ascii ''No reply received.''))
               else Inr (or_else (data_reply d) (ascii ''No response from AI''))))"

definition handleSend_settle :: "process_data fetch_result \<Rightarrow> chat_state \<Rightarrow> chat_state" where
  "handleSend_settle r st =
     (let st1 = (case handleSend_try r of
                   Inr reply \<Rightarrow> st\<lparr>aiResponse := reply\<rparr>
                 | Inl err \<Rightarrow>
                     st\<lparr>error := Some (or_else (Some (message err))
                                            (ascii ''Failed to get AI response'')),
                        aiResponse := ascii ''Error: ''
                          @ or_else (Some (message err)) (ascii ''Could not reach server'')\<rparr>)
      in st1\<lparr>isLoading := False, isInputHidden := True, showButtons := True\<rparr>)"

definition handleSend ::
  "chat_props \<Rightarrow> process_data fetch_result \<Rightarrow> chat_state \<times> browser
     \<Rightarrow> chat_state \<times> browser" where
  "handleSend p r sb =
     (case handleSend_start p sb of
        (True, st1, br1) \<Rightarrow> (handleSend_settle r st1, br1)
      | (False, st1, br1) \<Rightarrow> (st1, br1))"

text \<open>What the widget shows as the reply: \<open>aiResponse && !isLoading\<close>.\<close>

definition shown_response :: "chat_state \<Rightarrow> jsstring option" where
  "shown_response st =
     (if aiResponse st \<noteq> [] \<and> \<not> isLoading st then Some (aiResponse st) else None)"

text \<open>
  \<open>handleSelectWinner\<close>. \<open>r\<close> is what the request to \<open>/api/select-winner\<close> gives
  (its body is not read) and \<open>url_parses\<close> says which texts \<open>new URL\<close> accepts.
\<close>

definition instructions :: jsstring where
  "instructions =
     ascii ''Await further instructions. If you understood, reply with ''
       @ [0x22] @ ascii ''Let'' @ [0x27] @ ascii ''s keep things going'' @ [0x22]
       @ ascii ''.''"

definition winner_request :: "chat_props \<Rightarrow> chat_state \<Rightarrow> request" where
  "winner_request p st =
     \<lparr>endpoint = ''/api/select-winner'', credentials_include = False,
      body = [(''modelIdentifier'', modelIdentifier p), (''prompt'', userPrompt st),
              (''response'', aiResponse st)]\<rparr>"

definition winner_url :: "chat_props \<Rightarrow> chat_state \<Rightarrow> url_object" where
  "winner_url p st =
     \<lparr>href = modelUrl p,
      appended = [(''prompt'', ascii ''Prompt:'' @ userPrompt st),
                  (''reply'', ascii ''Reply:'' @ aiResponse st @ instructions)]\<rparr>"

definition handleSelectWinner_try ::
  "(jsstring \<Rightarrow> bool) \<Rightarrow> chat_props \<Rightarrow> chat_state \<Rightarrow> unit fetch_result \<Rightarrow> browser
     \<Rightarrow> js_error + browser" where
  "handleSelectWinner_try url_parses p st r br =
     (case r of
        Rejected e \<Rightarrow> Inl e
      | Resolved status b \<Rightarrow>
          if \<not> url_parses (modelUrl p) then Inl (TypeError (ascii ''Invalid URL''))
          else Inr (br\<lparr>opened := opened br @ [(winner_url p st, ''_blank'')]\<rparr>))"

definition handleSelectWinner ::
  "(jsstring \<Rightarrow> bool) \<Rightarrow> chat_props \<Rightarrow> unit fetch_result \<Rightarrow> chat_state \<times> browser
     \<Rightarrow> chat_state \<times> browser" where
  "handleSelectWinner url_parses p r = (\<lambda>(st, br).
     let br1 = post (winner_request p st) br;
         br2 = (case handleSelectWinner_try url_parses p st r br1 of
                  Inr br' \<Rightarrow> br'
                | Inl err \<Rightarrow>
                    (console_error (ascii ''Failed to select winner:'') err br1)
                      \<lparr>alerts := alerts br1 @ [ascii ''Failed to process winner selection'']\<rparr>)
     in (st, br2\<lparr>timeouts := timeouts br2 @ [(ReloadPage, 500)]\<rparr>))"

text \<open>
  \<open>handleDismiss\<close> puts the identifier, as it is, between double quotes in the
  selector \<open>[data-model="..."]\<close> and gives it to \<open>querySelector\<close>, which returns the
  first matching element in document order, returns \<open>null\<close>, or throws when the text
  is not a selector.

  A code unit is plain when it stands for itself inside a double-quoted CSS string:
  it is not the quote (which ends the string), the backslash (which starts an escape),
  a line break (which ends the string badly), NUL or a surrogate (which the parser
  replaces). For an identifier of plain code units the selector matches exactly the
  elements whose \<open>data-model\<close> attribute equals the identifier; only chat containers
  carry that attribute. For any other identifier what the selector text means is the
  business of the browser's selector engine, which is a parameter: it throws, finds
  nothing, or finds a chat container or another element of the document.
\<close>

datatype element = ChatContainer nat | OtherElement

type_synonym selector_engine = "jsstring \<Rightarrow> dom_node list \<Rightarrow> js_error + element option"

definition css_plain :: "nat \<Rightarrow> bool" where
  "css_plain c \<longleftrightarrow>
     c \<noteq> 0x22 \<and> c \<noteq> 0x5C \<and> c \<noteq> 0xA \<and> c \<noteq> 0xC \<and> c \<noteq> 0xD \<and> c \<noteq> 0x0 \<and>
     \<not> (0xD800 \<le> c \<and> c \<le> 0xDFFF)"

fun first_index :: "('a \<Rightarrow> bool) \<Rightarrow> 'a list \<Rightarrow> nat option" where
  "first_index P [] = None"
| "first_index P (x # xs) =
     (if P x then Some 0 else (case first_index P xs of None \<Rightarrow> None | Some i \<Rightarrow> Some (Suc i)))"

definition selector_text :: "jsstring \<Rightarrow> jsstring" where
  "selector_text mid = ascii ''[data-model='' @ [0x22] @ mid @ [0x22] @ ascii '']''"

definition querySelector_data_model ::
  "selector_engine \<Rightarrow> jsstring \<Rightarrow> dom_node list \<Rightarrow> js_error + element option" where
  "querySelector_data_model engine mid ns =
     (if list_all css_plain mid
      then Inr (case first_index (\<lambda>n. data_model n = mid) ns of
                  None \<Rightarrow> None
                | Some i \<Rightarrow> Some (ChatContainer i))
      else engine (selector_text mid) ns)"

text \<open>Setting \<open>display: none\<close> on the i-th chat container.\<close>

definition hide_at :: "nat \<Rightarrow> dom_node list \<Rightarrow> dom_node list" where
  "hide_at i ns = (if i < length ns then ns[i := (ns ! i)\<lparr>display_none := True\<rparr>] else ns)"

text \<open>
  \<open>handleDismiss\<close>: an exception of \<open>querySelector\<close> leaves the handler, nothing is
  hidden; an element found is hidden; with none found, the fallback
  \<open>querySelector('.chatContainer')\<close> hides the first chat container of the document,
  if there is one.
\<close>

definition handleDismiss :: "selector_engine \<Rightarrow> chat_props \<Rightarrow> browser \<Rightarrow> browser" where
  "handleDismiss engine p br =
     (case querySelector_data_model engine (modelIdentifier p) (containers br) of
        Inl err \<Rightarrow> br\<lparr>uncaught := uncaught br @ [err]\<rparr>
      | Inr (Some (ChatContainer i)) \<Rightarrow> br\<lparr>containers := hide_at i (containers br)\<rparr>
      | Inr (Some OtherElement) \<Rightarrow> br\<lparr>hidden_elsewhere := True\<rparr>
      | Inr None \<Rightarrow> br\<lparr>containers := hide_at 0 (containers br)\<rparr>)"

definition handleIconClick :: "chat_props \<Rightarrow> browser \<Rightarrow> browser" where
  "handleIconClick p br =
     (if modelUrl p \<noteq> [] \<and> modelUrl p \<noteq> ascii ''#''
      then br\<lparr>opened := opened br @ [(\<lparr>href = modelUrl p, appended = []\<rparr>, ''_blank'')]\<rparr>
      else br)"

text \<open>The two effects that follow the props \<open>masterPrompt\<close> and \<open>triggerSend\<close>.\<close>

definition masterPrompt_effect :: "chat_props \<Rightarrow> chat_state \<Rightarrow> chat_state" where
  "masterPrompt_effect p st = st\<lparr>userPrompt := prop_masterPrompt p\<rparr>"

definition triggerSend_effect ::
  "chat_props \<Rightarrow> chat_state \<times> browser \<Rightarrow> chat_state \<times> browser" where
  "triggerSend_effect p sb =
     (if prop_triggerSend p > 0 then snd (handleSend_start p sb) else sb)"

text \<open>
  The events of one mounted instance, on its props, its state and the browser. An
  event of a control happens only while the control is rendered and enabled: the
  input and the send button are rendered while \<open>isInputHidden\<close> is false, the two
  action buttons while \<open>showButtons\<close> is true. A render with a new \<open>masterPrompt\<close> or
  a new \<open>triggerSend\<close> runs the effect that depends on it; a new key runs none. The
  key fetch and a pending request may settle at any moment.
\<close>

datatype chat_event =
    InputChange jsstring
  | InputKeyDown jsstring bool
  | ClickSendButton
  | ClickWinner "unit fetch_result"
  | ClickDismiss
  | ClickChatIcon
  | MasterPromptProp jsstring
  | TriggerSendProp nat
  | KeyProp "jsstring option"
  | KeyFetched "jsstring option fetch_result"
  | ProcessSettled "process_data fetch_result"

fun chat_step ::
  "(jsstring \<Rightarrow> bool) \<Rightarrow> selector_engine \<Rightarrow> chat_event
     \<Rightarrow> chat_props \<times> chat_state \<times> browser
     \<Rightarrow> (chat_props \<times> chat_state \<times> browser) option" where
  "chat_step up qs (InputChange v) (p, st, br) =
     (if \<not> isInputHidden st \<and> \<not> isLoading st then Some (p, st\<lparr>userPrompt := v\<rparr>, br)
      else None)"
| "chat_step up qs (InputKeyDown key shiftKey) (p, st, br) =
     (if \<not> isInputHidden st \<and> \<not> isLoading st
      then (if key = ascii ''Enter'' \<and> \<not> shiftKey
            then Some (p, snd (handleSend_start p (st, br))) else Some (p, st, br))
      else None)"
| "chat_step up qs ClickSendButton (p, st, br) =
     (if \<not> isInputHidden st \<and> \<not> (isLoading st \<or> trim (userPrompt st) = [])
      then Some (p, snd (handleSend_start p (st, br))) else None)"
| "chat_step up qs (ClickWinner r) (p, st, br) =
     (if showButtons st then Some (p, handleSelectWinner up p r (st, br)) else None)"
| "chat_step up qs ClickDismiss (p, st, br) =
     (if showButtons st then Some (p, st, handleDismiss qs p br) else None)"
| "chat_step up qs ClickChatIcon (p, st, br) =
     (if \<not> (modelUrl p = [] \<or> modelUrl p = ascii ''#'')
      then Some (p, st, handleIconClick p br) else None)"
| "chat_step up qs (MasterPromptProp v) (p, st, br) =
     (let p' = p\<lparr>prop_masterPrompt := v\<rparr>
      in if v \<noteq> prop_masterPrompt p then Some (p', masterPrompt_effect p' st, br)
         else Some (p', st, br))"
| "chat_step up qs (TriggerSendProp n) (p, st, br) =
     (let p' = p\<lparr>hideInputFooter := (n > 0), prop_triggerSend := n\<rparr>
      in if n \<noteq> prop_triggerSend p then Some (p', triggerSend_effect p' (st, br))
         else Some (p', st, br))"
| "chat_step up qs (KeyProp k) (p, st, br) = Some (p\<lparr>encryptedApiKey := k\<rparr>, st, br)"
| "chat_step up qs (KeyFetched r) (p, st, br) = Some (p, snd (fetchApiKey p r (st, br)))"
| "chat_step up qs (ProcessSettled r) (p, st, br) = Some (p, handleSend_settle r st, br)"

text \<open>A run of events; it stops with \<open>None\<close> at an event that cannot happen.\<close>

fun chat_run ::
  "(jsstring \<Rightarrow> bool) \<Rightarrow> selector_engine \<Rightarrow> chat_event list
     \<Rightarrow> chat_props \<times> chat_state \<times> browser
     \<Rightarrow> (chat_props \<times> chat_state \<times> browser) option" where
  "chat_run up qs [] c = Some c"
| "chat_run up qs (ev # evs) c =
     (case chat_step up qs ev c of None \<Rightarrow> None | Some c' \<Rightarrow> chat_run up qs evs c')"

fun is_trigger :: "chat_event \<Rightarrow> bool" where
  "is_trigger (TriggerSendProp n) = True"
| "is_trigger ev = False"

definition process_requests :: "browser \<Rightarrow> request list" where
  "process_requests br = filter (\<lambda>q. endpoint q = ''/api/process'') (requests br)"

section \<open>The page: the coordinator and its instances\<close>

text \<open>
  \<open>App\<close> renders one \<open>ChatInstance\<close> for each record of \<open>activeModels\<close>, in order,
  with these props.
\<close>

definition props_of :: "app_state \<Rightarrow> model_instance \<Rightarrow> chat_props" where
  "props_of s m =
     \<lparr>modelName = m_name m, modelIcon = m_icon m, modelIdentifier = m_id m,
      modelUrl = m_url m, prop_masterPrompt = masterPrompt s, provider = m_provider m,
      encryptedApiKey = m_encryptedApiKey m, hideInputFooter = (triggerSend s > 0),
      prop_triggerSend = triggerSend s\<rparr>"

record page =
  app :: app_state
  chats :: "chat_state list"
  world :: browser

text \<open>A page is well formed when every record has its instance and its container.\<close>

definition page_ok :: "page \<Rightarrow> bool" where
  "page_ok pg \<longleftrightarrow>
     length (chats pg) = length (activeModels (app pg)) \<and>
     map data_model (containers (world pg)) = map m_id (activeModels (app pg))"

text \<open>After a render with a new \<open>triggerSend\<close>, the effect of every instance runs.\<close>

fun run_trigger_effects ::
  "app_state \<Rightarrow> model_instance list \<Rightarrow> chat_state list \<Rightarrow> browser
     \<Rightarrow> chat_state list \<times> browser" where
  "run_trigger_effects s (m # ms) (c # cs) br =
     (case triggerSend_effect (props_of s m) (c, br) of
        (c', br1) \<Rightarrow>
          (case run_trigger_effects s ms cs br1 of (cs', br2) \<Rightarrow> (c' # cs', br2)))"
| "run_trigger_effects s [] cs br = (cs, br)"
| "run_trigger_effects s ms [] br = ([], br)"

definition master_send :: "page \<Rightarrow> page" where
  "master_send pg =
     (let s' = handleSendMasterPrompt (app pg)
      in if triggerSend s' = triggerSend (app pg) then pg\<lparr>app := s'\<rparr>
         else (case run_trigger_effects s' (activeModels s') (chats pg) (world pg) of
                 (cs, br) \<Rightarrow> \<lparr>app = s', chats = cs, world = br\<rparr>))"

text \<open>The requests that a master send makes the instances issue, one instance after
  the other.\<close>

fun sendable :: "model_instance \<times> chat_state \<Rightarrow> bool" where
  "sendable (m, c) \<longleftrightarrow> trim (userPrompt c) \<noteq> [] \<and> truthy (m_encryptedApiKey m)"

fun request_of :: "app_state \<Rightarrow> model_instance \<times> chat_state \<Rightarrow> request" where
  "request_of s (m, c) =
     process_request (props_of s m) c (case m_encryptedApiKey m of Some k \<Rightarrow> k | None \<Rightarrow> [])"

text \<open>
  A click on the dismiss button of the i-th instance; the button is rendered while
  \<open>showButtons\<close> of that instance is true.
\<close>

definition dismiss :: "selector_engine \<Rightarrow> nat \<Rightarrow> page \<Rightarrow> page" where
  "dismiss engine i pg =
     (if i < length (activeModels (app pg)) \<and> i < length (chats pg) \<and> showButtons (chats pg ! i)
      then pg\<lparr>world := handleDismiss engine (props_of (app pg) (activeModels (app pg) ! i))
                            (world pg)\<rparr>
      else pg)"

text \<open>
  A page load: only localStorage is kept. \<open>App\<close> starts from its initial state and
  runs its two mount effects; the main view, with a container for every record, is
  rendered once the consent is there.
\<close>

definition render_dom :: "app_state \<Rightarrow> dom_node list" where
  "render_dom s =
     (if showConsentModal s \<or> \<not> hasConsented s then []
      else map (\<lambda>m. \<lparr>data_model = m_id m, display_none = False\<rparr>) (activeModels s))"

definition page_load :: "browser \<Rightarrow> page" where
  "page_load br =
     (let br0 = \<lparr>requests = [], ls_apiKeyConsent = ls_apiKeyConsent br,
                 ls_activeModels = ls_activeModels br, console = [], uncaught = [],
                 timeouts = [], opened = [], alerts = [], reloads = 0, containers = [],
      hidden_elsewhere = False\<rparr>
      in case load_active_models (load_consent (initial_app, br0)) of
           (s, br1) \<Rightarrow>
             \<lparr>app = s, chats = map (\<lambda>m. initial_chat (props_of s m)) (activeModels s),
              world = br1\<lparr>containers := render_dom s\<rparr>\<rparr>)"

section \<open>Sample values\<close>

text \<open>A browser with nothing in it, and the request that \<open>saveProviderApiKey\<close> issues.\<close>

definition initial_browser :: browser where
  "initial_browser =
     \<lparr>requests = [], ls_apiKeyConsent = None, ls_activeModels = None, console = [],
      uncaught = [], timeouts = [], opened = [], alerts = [], reloads = 0, containers = [],
      hidden_elsewhere = False\<rparr>"

definition save_request :: "jsstring \<Rightarrow> jsstring \<Rightarrow> request" where
  "save_request sp k =
     \<lparr>endpoint = ''/api/keys/save'', credentials_include = True,
      body = [(''provider'', sp), (''apiKey'', k)]\<rparr>"

text \<open>Concrete inputs on which the theorems below are run.\<close>

definition demo_env :: env where
  "demo_env =
     \<lparr>icons = [\<lparr>icon_path = ascii ''/assets/openai.svg'', icon_name = ascii ''openai''\<rparr>],
      date_now = (\<lambda>i. 1700000000000 + i), random_suffix = (\<lambda>i. ascii ''k3x9q'')\<rparr>"

definition demo_model :: model_instance where
  "demo_model =
     \<lparr>m_id = ascii ''openai-gpt-4o-1700000000000-0-a1b2c'', m_name = ascii ''gpt-4o'',
      m_provider = ascii ''openai'', m_icon = ascii ''/assets/openai.svg'',
      m_url = ascii ''https://chatgpt.com/c/?prompt='',
      m_encryptedApiKey = Some (ascii ''sk-1'')\<rparr>"

definition demo_app :: app_state where
  "demo_app =
     initial_app\<lparr>hasConsented := True, masterPrompt := ascii ''hi'',
       activeModels := [demo_model], showAddModal := True,
       selectedProvider := Some (ascii ''openai''),
       selectedModel := Some (ModelString (ascii ''gpt-4o'')),
       apiKeyInput := ascii ''sk-2'', instanceCount := 2\<rparr>"

definition demo_ok :: "'a \<Rightarrow> 'a fetch_result" where
  "demo_ok d = Resolved 200 (JsonValue d)"

definition demo_down :: "'a fetch_result" where
  "demo_down = Rejected (TypeError (ascii ''Failed to fetch''))"

text \<open>The request of the key fetch of an instance.\<close>

definition key_request :: "chat_props \<Rightarrow> request" where
  "key_request p =
     \<lparr>endpoint = ''/api/keys/get'', credentials_include = False,
      body = [(''provider'', provider p)]\<rparr>"

definition demo_props :: chat_props where
  "demo_props = props_of demo_app demo_model"

definition demo_chat :: chat_state where
  "demo_chat = initial_chat demo_props"

definition demo_reply :: "process_data fetch_result" where
  "demo_reply = demo_ok \<lparr>data_reply = Some (ascii ''Hello!''), data_error = None\<rparr>"

definition demo_done :: chat_state where
  "demo_done = handleSend_settle demo_reply (demo_chat\<lparr>isLoading := True\<rparr>)"

text \<open>A record without a key, and a page with given records, loaded and consented.\<close>

definition demo_keyless :: model_instance where
  "demo_keyless =
     demo_model\<lparr>m_id := ascii ''openai-gpt-4o-1700000000000-1-z9y8x'',
                 m_encryptedApiKey := None\<rparr>"

definition demo_page :: "model_instance list \<Rightarrow> page" where
  "demo_page ms =
     \<lparr>app = demo_app\<lparr>activeModels := ms\<rparr>,
      chats = map (\<lambda>m. initial_chat (props_of (demo_app\<lparr>activeModels := ms\<rparr>) m)) ms,
      world = initial_browser
        \<lparr>ls_apiKeyConsent := Some (ascii ''true''), ls_activeModels := Some ms,
         containers := render_dom (demo_app\<lparr>activeModels := ms\<rparr>)\<rparr>\<rparr>"

text \<open>
  A model whose name holds double quotes and a model whose name holds backslashes, as
  a provider's model list can give them, with the identifiers that \<open>handleSaveApiKey\<close>
  builds for them; and a page on which every instance has shown its reply, so that the
  action buttons are rendered.
\<close>

definition quoted_name :: jsstring where
  "quoted_name = ascii ''my '' @ [0x22] @ ascii ''fast'' @ [0x22] @ ascii '' model''"

definition slashed_name :: jsstring where
  "slashed_name = ascii ''C:'' @ [0x5C] @ ascii ''models'' @ [0x5C] @ ascii ''llama.gguf''"

definition demo_quoted :: model_instance where
  "demo_quoted =
     demo_model\<lparr>m_id := ascii ''openai-'' @ quoted_name @ ascii ''-1700000000000-0-k3x9q'',
                 m_name := quoted_name, m_encryptedApiKey := Some (ascii ''sk-2'')\<rparr>"

definition demo_slashed :: model_instance where
  "demo_slashed =
     demo_model\<lparr>m_id := ascii ''openai-'' @ slashed_name @ ascii ''-1700000000000-0-k3x9q'',
                 m_name := slashed_name, m_encryptedApiKey := Some (ascii ''sk-2'')\<rparr>"

definition demo_answered :: "model_instance list \<Rightarrow> page" where
  "demo_answered ms = (demo_page ms)\<lparr>chats := map (\<lambda>m. demo_done) ms\<rparr>"

text \<open>
  Two answers of a selector engine: the text is not a selector, and no element matches.
\<close>

definition engine_rejects :: selector_engine where
  "engine_rejects sel ns = Inl (SyntaxError (sel @ ascii '' is not a valid selector''))"

definition engine_finds_nothing :: selector_engine where
  "engine_finds_nothing sel ns = Inr None"

section \<open>Properties\<close>

subsection \<open>Strings and helpers\<close>

lemma ascii_eq_iff [simp]: "ascii s = ascii t \<longleftrightarrow> s = t"
  by (simp add: ascii_def inj_map_eq_map inj_of_char)

lemma messages_distinct [simp]:
  "msg_added \<noteq> msg_enter_key" "msg_added \<noteq> msg_select_model" "msg_added \<noteq> msg_saving"
  "msg_added \<noteq> msg_failed e"
  "msg_enter_key \<noteq> msg_added" "msg_select_model \<noteq> msg_added" "msg_saving \<noteq> msg_added"
  "msg_failed e \<noteq> msg_added"
  by (simp_all add: msg_added_def msg_enter_key_def msg_select_model_def msg_saving_def
        msg_failed_def check_mark_def cross_mark_def hourglass_def)

lemma saveProviderApiKey_try_cases:
  "saveProviderApiKey_try r = Inr SaveOk \<or> (\<exists>e. saveProviderApiKey_try r = Inl e)"
  by (simp add: saveProviderApiKey_try_def split: fetch_result.splits json.splits)

lemma collect_length: "collect f js = Inr xs \<Longrightarrow> length xs = length js"
  by (induction js arbitrary: xs) (auto split: sum.splits)

lemma collect_all_ok: "(\<And>i. f i = Inr (g i)) \<Longrightarrow> collect f js = Inr (map g js)"
  by (induction js) auto


lemma Array_from_length: "Array_from n f = Inr xs \<Longrightarrow> length xs = n"
  using collect_length [of f "[0..<n]" xs] by (simp add: Array_from_def)

lemma handleSaveApiKey_failed:
  assumes "trim (apiKeyInput s) \<noteq> []"
    and "selectedModel s = Some sm" and "model_truthy sm"
    and "selectedProvider s = Some sp" and "sp \<noteq> []"
    and "saveProviderApiKey_try r = Inl err"
  shows "handleSaveApiKey e r (s, br) =
           (s\<lparr>savingApiKey := False, saveMessage := msg_failed (message err)\<rparr>,
            console_error (ascii ''Error saving API key:'') err
              (post (save_request sp (apiKeyInput s)) br))"
  using assms
  by (simp add: handleSaveApiKey_def saveProviderApiKey_def save_request_def Let_def)


lemma handleSaveApiKey_added:
  assumes "trim (apiKeyInput s) \<noteq> []"
    and "selectedModel s = Some sm" and "model_truthy sm"
    and "selectedProvider s = Some sp" and "sp \<noteq> []"
    and "saveProviderApiKey_try r = Inr SaveOk"
    and "Array_from (instanceCount s)
           (new_instance e sp (case sm of ModelString n \<Rightarrow> n | ModelObject n \<Rightarrow> n)
              (apiKeyInput s)) = Inr newModels"
  shows "handleSaveApiKey e r (s, br) =
           (s\<lparr>savingApiKey := False, saveMessage := msg_added,
              activeModels := activeModels s @ newModels\<rparr>,
            (post (save_request sp (apiKeyInput s)) br)
              \<lparr>ls_activeModels := Some (activeModels s @ newModels),
               timeouts := timeouts br @ [(ResetAddForm, 1500)]\<rparr>)"
  using assms
  by (simp add: handleSaveApiKey_def saveProviderApiKey_def save_request_def Let_def post_def)

lemma handleSaveApiKey_added_only:
  assumes "saveMessage (fst (handleSaveApiKey e r (s, br))) = msg_added"
  shows "\<exists>sm sp newModels. trim (apiKeyInput s) \<noteq> [] \<and> selectedModel s = Some sm \<and> model_truthy sm \<and>
           selectedProvider s = Some sp \<and> sp \<noteq> [] \<and> saveProviderApiKey_try r = Inr SaveOk \<and>
           Array_from (instanceCount s)
             (new_instance e sp (case sm of ModelString n \<Rightarrow> n | ModelObject n \<Rightarrow> n)
               (apiKeyInput s)) = Inr newModels"
  using assms
  by (auto simp add: handleSaveApiKey_def saveProviderApiKey_def Let_def
      split: if_splits option.splits sum.splits save_result.splits prod.splits)

subsection \<open>Adding models\<close>

text \<open>
  C2. The add-model flow completes successfully exactly when it ends with the message
  that the models were added. When it does, the key was not blank, a model and a
  provider were selected and the round-trip that saves the key succeeded; exactly
  \<open>instanceCount\<close> new records are appended to \<open>activeModels\<close>, the records that were
  there stay in front in their order, and the \<open>activeModels\<close> entry of localStorage
  holds the same list. Under these conditions and a provider that \<open>getProviderURL\<close>
  knows, the flow does complete.
\<close>

theorem add_model_appends:
  "(saveMessage (fst (handleSaveApiKey e r (s, br))) = msg_added \<longrightarrow>
      trim (apiKeyInput s) \<noteq> [] \<and> selectedModel s \<noteq> None \<and> truthy (selectedProvider s) \<and>
      saveProviderApiKey_try r = Inr SaveOk \<and>
      (\<exists>newModels. length newModels = instanceCount s \<and>
         activeModels (fst (handleSaveApiKey e r (s, br))) = activeModels s @ newModels \<and>
         ls_activeModels (snd (handleSaveApiKey e r (s, br)))
           = Some (activeModels s @ newModels))) \<and>
   (trim (apiKeyInput s) \<noteq> [] \<and> selectedModel s = Some sm \<and> model_truthy sm \<and>
    selectedProvider s = Some sp \<and> sp \<noteq> [] \<and> saveProviderApiKey_try r = Inr SaveOk \<and>
    getProviderURL sp = Inr u \<longrightarrow>
      saveMessage (fst (handleSaveApiKey e r (s, br))) = msg_added)"
proof (intro conjI impI)
  assume a: "saveMessage (fst (handleSaveApiKey e r (s, br))) = msg_added"
  from handleSaveApiKey_added_only [OF a] obtain sm' sp' newModels where
    v: "trim (apiKeyInput s) \<noteq> []" "selectedModel s = Some sm'" "model_truthy sm'"
       "selectedProvider s = Some sp'" "sp' \<noteq> []" "saveProviderApiKey_try r = Inr SaveOk"
    and n: "Array_from (instanceCount s)
             (new_instance e sp' (case sm' of ModelString n \<Rightarrow> n | ModelObject n \<Rightarrow> n)
               (apiKeyInput s)) = Inr newModels"
    by blast
  show "trim (apiKeyInput s) \<noteq> []" by (rule v(1))
  show "selectedModel s \<noteq> None" using v(2) by simp
  show "truthy (selectedProvider s)" using v(4,5) by (simp add: truthy_def)
  show "saveProviderApiKey_try r = Inr SaveOk" by (rule v(6))
  have "length newModels = instanceCount s" using n by (rule Array_from_length)
  then show "\<exists>newModels. length newModels = instanceCount s \<and>
         activeModels (fst (handleSaveApiKey e r (s, br))) = activeModels s @ newModels \<and>
         ls_activeModels (snd (handleSaveApiKey e r (s, br)))
           = Some (activeModels s @ newModels)"
    using handleSaveApiKey_added [OF v n, of br] by (intro exI [of _ newModels]) simp
next
  assume b: "trim (apiKeyInput s) \<noteq> [] \<and> selectedModel s = Some sm \<and> model_truthy sm \<and>
    selectedProvider s = Some sp \<and> sp \<noteq> [] \<and> saveProviderApiKey_try r = Inr SaveOk \<and>
    getProviderURL sp = Inr u"
  then have "\<exists>newModels. Array_from (instanceCount s)
             (new_instance e sp (case sm of ModelString n \<Rightarrow> n | ModelObject n \<Rightarrow> n)
               (apiKeyInput s)) = Inr newModels"
    using collect_all_ok [of "new_instance e sp (case sm of ModelString n \<Rightarrow> n | ModelObject n \<Rightarrow> n)
               (apiKeyInput s)" _ "[0..<instanceCount s]"]
    by (simp add: Array_from_def new_instance_def)
  then obtain newModels where n: "Array_from (instanceCount s)
             (new_instance e sp (case sm of ModelString n \<Rightarrow> n | ModelObject n \<Rightarrow> n)
               (apiKeyInput s)) = Inr newModels" ..
  from b have v: "trim (apiKeyInput s) \<noteq> []" "selectedModel s = Some sm" "model_truthy sm"
       "selectedProvider s = Some sp" "sp \<noteq> []" "saveProviderApiKey_try r = Inr SaveOk"
    by simp_all
  show "saveMessage (fst (handleSaveApiKey e r (s, br))) = msg_added"
    using handleSaveApiKey_added [OF v n, of br] by simp
qed

text \<open>The flow on the sample state: two records are appended behind the one that was there.\<close>

lemma demo_getProviderURL:
  "getProviderURL (ascii ''openai'') = Inr (ascii ''https://chatgpt.com/c/?prompt='')"
  by (simp add: getProviderURL_def toLowerCase_def ascii_def lower_unit_def)

lemma demo_app_valid:
  "trim (apiKeyInput demo_app) \<noteq> []"
  "selectedModel demo_app = Some (ModelString (ascii ''gpt-4o''))"
  "model_truthy (ModelString (ascii ''gpt-4o''))"
  "selectedProvider demo_app = Some (ascii ''openai'')"
  "ascii ''openai'' \<noteq> []"
  by (simp_all add: demo_app_def initial_app_def trim_def ascii_def is_white_space_def
        model_truthy_def)

theorem add_model_appends_witness:
  "saveMessage (fst (handleSaveApiKey demo_env (demo_ok ()) (demo_app, initial_browser)))
     = msg_added \<and>
   (\<exists>newModels. length newModels = 2 \<and>
      activeModels (fst (handleSaveApiKey demo_env (demo_ok ()) (demo_app, initial_browser)))
        = [demo_model] @ newModels \<and>
      ls_activeModels (snd (handleSaveApiKey demo_env (demo_ok ()) (demo_app, initial_browser)))
        = Some ([demo_model] @ newModels))"
proof -
  have ok: "saveProviderApiKey_try (demo_ok ()) = Inr SaveOk"
    by (simp add: saveProviderApiKey_try_def demo_ok_def response_ok_def)
  have m: "saveMessage (fst (handleSaveApiKey demo_env (demo_ok ()) (demo_app, initial_browser)))
     = msg_added"
    using add_model_appends [of demo_env "demo_ok ()" demo_app initial_browser
        "ModelString (ascii ''gpt-4o'')" "ascii ''openai''"
        "ascii ''https://chatgpt.com/c/?prompt=''"]
      demo_app_valid ok demo_getProviderURL by blast
  have n: "instanceCount demo_app = 2" "activeModels demo_app = [demo_model]"
    by (simp_all add: demo_app_def initial_app_def)
  show ?thesis
    using m n add_model_appends [of demo_env "demo_ok ()" demo_app initial_browser] by metis
qed

subsection \<open>A failed save\<close>

text \<open>
  The try block of \<open>saveProviderApiKey\<close> throws exactly when the request is rejected,
  the status is not ok, or the body does not parse.
\<close>

lemma saveProviderApiKey_try_fails_iff:
  "(\<exists>err. saveProviderApiKey_try r = Inl err) \<longleftrightarrow>
     (\<exists>e. r = Rejected e) \<or>
     (\<exists>status b. r = Resolved status b \<and> (\<not> response_ok status \<or> (\<exists>e. b = JsonThrows e)))"
  by (auto simp: saveProviderApiKey_try_def split: fetch_result.splits json.splits if_splits)

text \<open>
  C3. When the round-trip that saves the key fails (the try block of
  \<open>saveProviderApiKey\<close> throws \<open>err\<close>), \<open>handleSaveApiKey\<close> shows the cross mark
  followed by \<open>Failed to save:\<close> and the message of the error, and returns: the list
  \<open>activeModels\<close> and the \<open>activeModels\<close> entry of localStorage are as before, no timer
  is set, no exception escapes, and the one request to \<open>/api/keys/save\<close> is the only
  request issued.
\<close>

theorem save_failure_adds_nothing:
  assumes "trim (apiKeyInput s) \<noteq> []"
    and "selectedModel s = Some sm" and "model_truthy sm"
    and "selectedProvider s = Some sp" and "sp \<noteq> []"
    and "saveProviderApiKey_try r = Inl err"
  shows "saveMessage (fst (handleSaveApiKey e r (s, br)))
           = cross_mark # ascii '' Failed to save: '' @ message err \<and>
         \<not> savingApiKey (fst (handleSaveApiKey e r (s, br))) \<and>
         activeModels (fst (handleSaveApiKey e r (s, br))) = activeModels s \<and>
         ls_activeModels (snd (handleSaveApiKey e r (s, br))) = ls_activeModels br \<and>
         requests (snd (handleSaveApiKey e r (s, br)))
           = requests br @ [save_request sp (apiKeyInput s)] \<and>
         timeouts (snd (handleSaveApiKey e r (s, br))) = timeouts br \<and>
         uncaught (snd (handleSaveApiKey e r (s, br))) = uncaught br"
  using handleSaveApiKey_failed [OF assms, of e br]
  by (simp add: msg_failed_def console_error_def post_def)

theorem save_failure_adds_nothing_witness:
  "saveMessage (fst (handleSaveApiKey demo_env demo_down (demo_app, initial_browser)))
     = cross_mark # ascii '' Failed to save: Failed to fetch'' \<and>
   activeModels (fst (handleSaveApiKey demo_env demo_down (demo_app, initial_browser)))
     = [demo_model] \<and>
   ls_activeModels (snd (handleSaveApiKey demo_env demo_down (demo_app, initial_browser)))
     = None \<and>
   requests (snd (handleSaveApiKey demo_env demo_down (demo_app, initial_browser)))
     = [save_request (ascii ''openai'') (ascii ''sk-2'')]"
proof -
  have f: "saveProviderApiKey_try (demo_down :: unit fetch_result)
             = Inl (TypeError (ascii ''Failed to fetch''))"
    by (simp add: saveProviderApiKey_try_def demo_down_def)
  have v: "activeModels demo_app = [demo_model]" "apiKeyInput demo_app = ascii ''sk-2''"
    by (simp_all add: demo_app_def initial_app_def)
  show ?thesis
    using save_failure_adds_nothing [OF demo_app_valid f, of demo_env initial_browser] v
    by (simp add: initial_browser_def ascii_def)
qed

subsection \<open>The provider table\<close>




subsection \<open>The fetch helpers\<close>

text \<open>
  C10. Whatever the request gives (a rejected promise, any status, a body that does not
  parse, \<open>null\<close>, a missing field), \<open>fetchProviderModels\<close> returns an array, the
  \<open>models\<close> list of an ok response or else the empty list, and \<open>fetchProviderApiKey\<close>
  returns a non-empty key of an ok response or else \<open>null\<close>; neither throws.
\<close>

theorem fetch_helpers_never_throw:
  "fst (fetchProviderModels p r br) =
     Inr (case r of
            Resolved status (JsonValue (Some ms)) \<Rightarrow> if response_ok status then ms else []
          | _ \<Rightarrow> []) \<and>
   fst (fetchProviderApiKey p' r' br') =
     Inr (case r' of
            Resolved status (JsonValue (Some k)) \<Rightarrow>
              if response_ok status \<and> k \<noteq> [] then Some k else None
          | _ \<Rightarrow> None)"
  by (simp add: fetchProviderModels_def fetchProviderModels_try_def fetchProviderApiKey_def
        fetchProviderApiKey_try_def Let_def truthy_def
      split: fetch_result.splits json.splits option.splits)

theorem fetch_helpers_never_throw_witness:
  "fst (fetchProviderModels (ascii ''openai'')
          (demo_ok (Some [ModelString (ascii ''gpt-4o'')])) initial_browser)
     = Inr [ModelString (ascii ''gpt-4o'')] \<and>
   fst (fetchProviderModels (ascii ''openai'') (Resolved 500 JsonNull) initial_browser)
     = Inr [] \<and>
   fst (fetchProviderApiKey (ascii ''openai'') (demo_ok (Some (ascii ''sk-1''))) initial_browser)
     = Inr (Some (ascii ''sk-1'')) \<and>
   fst (fetchProviderApiKey (ascii ''openai'') demo_down initial_browser) = Inr None"
  using fetch_helpers_never_throw [of "ascii ''openai''"
      "demo_ok (Some [ModelString (ascii ''gpt-4o'')])" initial_browser "ascii ''openai''"
      "demo_ok (Some (ascii ''sk-1''))" initial_browser]
    fetch_helpers_never_throw [of "ascii ''openai''" "Resolved 500 JsonNull" initial_browser
      "ascii ''openai''" demo_down initial_browser]
  by (simp add: demo_ok_def demo_down_def response_ok_def ascii_def)

subsection \<open>Sending\<close>

lemma trim_empty_iff: "trim s = [] \<longleftrightarrow> (\<forall>c \<in> set s. is_white_space c)"
proof -
  have "(\<forall>x \<in> set (dropWhile is_white_space s). is_white_space x)
          \<longleftrightarrow> (\<forall>c \<in> set s. is_white_space c)"
    by (induction s) auto
  then show ?thesis by (simp add: trim_def)
qed

lemma handleSend_start_blank:
  "trim (userPrompt st) = [] \<Longrightarrow> handleSend_start p (st, br) = (False, st, br)"
  by (simp add: handleSend_start_def)

lemma handleSend_start_no_key:
  "trim (userPrompt st) \<noteq> [] \<Longrightarrow> \<not> truthy (encryptedApiKey p) \<Longrightarrow>
     handleSend_start p (st, br) = (False, st\<lparr>aiResponse := msg_key_missing\<rparr>, br)"
  by (simp add: handleSend_start_def truthy_def split: option.splits)

lemma handleSend_start_sends:
  "trim (userPrompt st) \<noteq> [] \<Longrightarrow> encryptedApiKey p = Some k \<Longrightarrow> k \<noteq> [] \<Longrightarrow>
     handleSend_start p (st, br) =
       (True, st\<lparr>isLoading := True, error := None\<rparr>, post (process_request p st k) br)"
  by (simp add: handleSend_start_def)

lemma handleSend_start_requests:
  "\<exists>qs. requests (snd (snd (handleSend_start p (st, br)))) = requests br @ qs \<and>
        (\<forall>q \<in> set qs. \<exists>key. encryptedApiKey p = Some key \<and> q = process_request p st key)"
  by (simp add: handleSend_start_def post_def split: option.splits)

lemma handleSend_start_hidden:
  "isInputHidden (fst (snd (handleSend_start p (st, br)))) = isInputHidden st"
  by (simp add: handleSend_start_def split: option.splits)

text \<open>
  C4. A send with a prompt that is not blank and a key that is empty or absent sets the
  reply to the message \<open>API key missing. Please add it first.\<close>, which the widget shows
  (it is not loading), and issues no request: the browser is as before. A send with a
  prompt that is empty or all white space changes nothing: no request, no message.
\<close>

theorem send_guards:
  "(trim (userPrompt st) \<noteq> [] \<and> \<not> truthy (encryptedApiKey p) \<longrightarrow>
      handleSend p r (st, br) = (st\<lparr>aiResponse := msg_key_missing\<rparr>, br) \<and>
      msg_key_missing = ascii ''API key missing'' @ ascii ''. Please add it first.'' \<and>
      (\<not> isLoading st \<longrightarrow>
         shown_response (fst (handleSend p r (st, br))) = Some msg_key_missing)) \<and>
   ((\<forall>c \<in> set (userPrompt st). is_white_space c) \<longrightarrow> handleSend p r (st, br) = (st, br))"
proof (intro conjI impI)
  assume a: "trim (userPrompt st) \<noteq> [] \<and> \<not> truthy (encryptedApiKey p)"
  then show h: "handleSend p r (st, br) = (st\<lparr>aiResponse := msg_key_missing\<rparr>, br)"
    by (simp add: handleSend_def handleSend_start_no_key)
  show m: "msg_key_missing = ascii ''API key missing'' @ ascii ''. Please add it first.''"
    by (simp add: msg_key_missing_def ascii_def)
  assume "\<not> isLoading st"
  then show "shown_response (fst (handleSend p r (st, br))) = Some msg_key_missing"
    by (simp add: h shown_response_def) (simp add: m ascii_def)
next
  assume "\<forall>c \<in> set (userPrompt st). is_white_space c"
  then have "trim (userPrompt st) = []" by (simp add: trim_empty_iff)
  then show "handleSend p r (st, br) = (st, br)"
    by (simp add: handleSend_def handleSend_start_blank)
qed

theorem send_guards_witness:
  "handleSend (demo_props\<lparr>encryptedApiKey := None\<rparr>) demo_reply (demo_chat, initial_browser)
     = (demo_chat\<lparr>aiResponse := ascii ''API key missing. Please add it first.''\<rparr>,
        initial_browser) \<and>
   shown_response (fst (handleSend (demo_props\<lparr>encryptedApiKey := Some []\<rparr>) demo_reply
                          (demo_chat, initial_browser)))
     = Some (ascii ''API key missing. Please add it first.'') \<and>
   handleSend demo_props demo_reply (demo_chat\<lparr>userPrompt := ascii ''  ''\<rparr>, initial_browser)
     = (demo_chat\<lparr>userPrompt := ascii ''  ''\<rparr>, initial_browser)"
proof -
  have c: "userPrompt demo_chat = ascii ''hi''" "\<not> isLoading demo_chat"
    by (simp_all add: demo_chat_def initial_chat_def demo_props_def props_of_def demo_app_def
          initial_app_def)
  have t: "trim (userPrompt demo_chat) \<noteq> []"
    by (simp add: c trim_def ascii_def is_white_space_def)
  have k: "\<not> truthy (encryptedApiKey (demo_props\<lparr>encryptedApiKey := None\<rparr>))"
    "\<not> truthy (encryptedApiKey (demo_props\<lparr>encryptedApiKey := Some []\<rparr>))"
    by (simp_all add: truthy_def)
  have w: "\<forall>c \<in> set (userPrompt (demo_chat\<lparr>userPrompt := ascii ''  ''\<rparr>)). is_white_space c"
    by (simp add: ascii_def is_white_space_def)
  have m: "msg_key_missing = ascii ''API key missing. Please add it first.''"
    by (simp add: msg_key_missing_def)
  have 1: "handleSend (demo_props\<lparr>encryptedApiKey := None\<rparr>) demo_reply
             (demo_chat, initial_browser)
           = (demo_chat\<lparr>aiResponse := msg_key_missing\<rparr>, initial_browser)"
    using send_guards [of demo_chat "demo_props\<lparr>encryptedApiKey := None\<rparr>" demo_reply
        initial_browser] t k(1) by blast
  have 2: "shown_response (fst (handleSend (demo_props\<lparr>encryptedApiKey := Some []\<rparr>)
             demo_reply (demo_chat, initial_browser))) = Some msg_key_missing"
    using send_guards [of demo_chat "demo_props\<lparr>encryptedApiKey := Some []\<rparr>" demo_reply
        initial_browser] t k(2) c(2) by blast
  have 3: "handleSend demo_props demo_reply
             (demo_chat\<lparr>userPrompt := ascii ''  ''\<rparr>, initial_browser)
           = (demo_chat\<lparr>userPrompt := ascii ''  ''\<rparr>, initial_browser)"
    using send_guards [of "demo_chat\<lparr>userPrompt := ascii ''  ''\<rparr>" demo_props demo_reply
        initial_browser] w by blast
  show ?thesis using 1 2 3 by (simp add: m)
qed

subsection \<open>Picking a winner\<close>

lemma handleSelectWinner_resolved:
  "url_parses (modelUrl p) \<Longrightarrow>
     handleSelectWinner url_parses p (Resolved status b) (st, br) =
       (st, (post (winner_request p st) br)
              \<lparr>opened := opened br @ [(winner_url p st, ''_blank'')],
               timeouts := timeouts br @ [(ReloadPage, 500)]\<rparr>)"
  by (simp add: handleSelectWinner_def handleSelectWinner_try_def Let_def post_def)

lemma handleSelectWinner_rejected:
  "handleSelectWinner url_parses p (Rejected e) (st, br) =
       (st, (console_error (ascii ''Failed to select winner:'') e
               (post (winner_request p st) br))
              \<lparr>alerts := alerts br @ [ascii ''Failed to process winner selection''],
               timeouts := timeouts br @ [(ReloadPage, 500)]\<rparr>)"
  by (simp add: handleSelectWinner_def handleSelectWinner_try_def Let_def post_def
        console_error_def)

lemma handleSelectWinner_bad_url:
  "\<not> url_parses (modelUrl p) \<Longrightarrow>
     handleSelectWinner url_parses p (Resolved status b) (st, br) =
       (st, (console_error (ascii ''Failed to select winner:'') (TypeError (ascii ''Invalid URL''))
               (post (winner_request p st) br))
              \<lparr>alerts := alerts br @ [ascii ''Failed to process winner selection''],
               timeouts := timeouts br @ [(ReloadPage, 500)]\<rparr>)"
  by (simp add: handleSelectWinner_def handleSelectWinner_try_def Let_def post_def
        console_error_def)

text \<open>
  C5, as the claim states it, fails: when the request to \<open>/api/select-winner\<close> is
  rejected, the handler opens no tab.
\<close>

theorem winner_rejected_opens_no_tab:
  "opened (snd (handleSelectWinner (\<lambda>u. True) demo_props demo_down (demo_done, initial_browser)))
     = [] \<and>
   opened (snd (handleSelectWinner (\<lambda>u. True) demo_props demo_down (demo_done, initial_browser)))
     \<noteq> opened initial_browser @ [(winner_url demo_props demo_done, ''_blank'')] \<and>
   alerts (snd (handleSelectWinner (\<lambda>u. True) demo_props demo_down (demo_done, initial_browser)))
     = [ascii ''Failed to process winner selection'']"
  by (simp add: demo_down_def handleSelectWinner_rejected console_error_def post_def
        initial_browser_def)

text \<open>
  C5, amended. Every winner selection posts the exchange (model identifier, prompt,
  response) to \<open>/api/select-winner\<close> and, on the success and on the failure path, sets
  the timer that reloads the page after 500 ms; the state of the instance is not
  changed. When the request is not rejected (whatever its status) and the URL of the
  instance parses, the handler opens that URL in a new tab with the prompt and the
  reply appended as the query parameters \<open>prompt\<close> and \<open>reply\<close>, and shows no alert.
  When the request is rejected or the URL does not parse, it opens no tab and shows
  an alert.
\<close>

theorem winner_reports_and_reloads:
  "requests (snd (handleSelectWinner url_parses p r (st, br)))
     = requests br @ [\<lparr>endpoint = ''/api/select-winner'', credentials_include = False,
                        body = [(''modelIdentifier'', modelIdentifier p),
                                (''prompt'', userPrompt st), (''response'', aiResponse st)]\<rparr>] \<and>
   timeouts (snd (handleSelectWinner url_parses p r (st, br)))
     = timeouts br @ [(ReloadPage, 500)] \<and>
   fst (handleSelectWinner url_parses p r (st, br)) = st \<and>
   ((\<exists>status b. r = Resolved status b) \<and> url_parses (modelUrl p) \<longrightarrow>
      opened (snd (handleSelectWinner url_parses p r (st, br)))
        = opened br @ [(\<lparr>href = modelUrl p,
                          appended = [(''prompt'', ascii ''Prompt:'' @ userPrompt st),
                                      (''reply'', ascii ''Reply:'' @ aiResponse st
                                                   @ instructions)]\<rparr>, ''_blank'')] \<and>
      alerts (snd (handleSelectWinner url_parses p r (st, br))) = alerts br) \<and>
   ((\<exists>e. r = Rejected e) \<or> \<not> url_parses (modelUrl p) \<longrightarrow>
      opened (snd (handleSelectWinner url_parses p r (st, br))) = opened br \<and>
      alerts (snd (handleSelectWinner url_parses p r (st, br)))
        = alerts br @ [ascii ''Failed to process winner selection''])"
proof (cases r)
  case (Rejected e)
  then show ?thesis
    by (simp add: handleSelectWinner_rejected console_error_def post_def winner_request_def)
next
  case (Resolved status b)
  then show ?thesis
    by (cases "url_parses (modelUrl p)")
       (simp_all add: handleSelectWinner_resolved handleSelectWinner_bad_url console_error_def
          post_def winner_request_def winner_url_def)
qed

theorem winner_reports_and_reloads_witness:
  "opened (snd (handleSelectWinner (\<lambda>u. True) demo_props (Resolved 500 JsonNull)
                  (demo_done, initial_browser)))
     = [(\<lparr>href = ascii ''https://chatgpt.com/c/?prompt='',
          appended = [(''prompt'', ascii ''Prompt:hi''),
                      (''reply'', ascii ''Reply:Hello!'' @ instructions)]\<rparr>, ''_blank'')] \<and>
   timeouts (snd (handleSelectWinner (\<lambda>u. True) demo_props (Resolved 500 JsonNull)
                    (demo_done, initial_browser)))
     = [(ReloadPage, 500)] \<and>
   timeouts (snd (handleSelectWinner (\<lambda>u. True) demo_props demo_down
                    (demo_done, initial_browser)))
     = [(ReloadPage, 500)] \<and>
   alerts (snd (handleSelectWinner (\<lambda>u. True) demo_props demo_down
                    (demo_done, initial_browser)))
     = [ascii ''Failed to process winner selection'']"
proof -
  have d: "userPrompt demo_done = ascii ''hi''" "aiResponse demo_done = ascii ''Hello!''"
    by (simp_all add: demo_done_def handleSend_settle_def handleSend_try_def demo_reply_def
          demo_ok_def response_ok_def or_else_def demo_chat_def initial_chat_def
          demo_props_def props_of_def demo_app_def initial_app_def ascii_def)
  have u: "modelUrl demo_props = ascii ''https://chatgpt.com/c/?prompt=''"
    by (simp add: demo_props_def props_of_def demo_model_def)
  have a: "ascii ''Prompt:'' @ ascii ''hi'' = ascii ''Prompt:hi''"
    "ascii ''Reply:'' @ ascii ''Hello!'' @ instructions = ascii ''Reply:Hello!'' @ instructions"
    by (simp_all add: ascii_def)
  show ?thesis
    using winner_reports_and_reloads [of "\<lambda>u. True" demo_props "Resolved 500 JsonNull"
        demo_done initial_browser]
      winner_reports_and_reloads [of "\<lambda>u. True" demo_props demo_down demo_done initial_browser]
    by (simp add: d u a initial_browser_def demo_down_def)
qed

subsection \<open>The life of an instance\<close>

lemma process_requests_post:
  "process_requests (post q br) =
     process_requests br @ (if endpoint q = ''/api/process'' then [q] else [])"
  by (simp add: process_requests_def post_def)

lemma process_requests_fields [simp]:
  "process_requests (br\<lparr>console := c\<rparr>) = process_requests br"
  "process_requests (br\<lparr>alerts := a\<rparr>) = process_requests br"
  "process_requests (br\<lparr>timeouts := t\<rparr>) = process_requests br"
  "process_requests (br\<lparr>opened := ob\<rparr>) = process_requests br"
  "process_requests (br\<lparr>containers := d\<rparr>) = process_requests br"
  by (simp_all add: process_requests_def)

lemma handleDismiss_frame:
  "handleDismiss qs p br =
     br\<lparr>uncaught := uncaught (handleDismiss qs p br),
        containers := containers (handleDismiss qs p br),
        hidden_elsewhere := hidden_elsewhere (handleDismiss qs p br)\<rparr>"
  by (simp add: handleDismiss_def split: sum.splits option.splits element.splits)

lemma handleDismiss_requests: "requests (handleDismiss qs p br) = requests br"
  by (simp add: handleDismiss_def split: sum.splits option.splits element.splits)

lemma chat_step_hidden:
  assumes "isInputHidden st" and "chat_step up qs ev (p, st, br) = Some (p', st', br')"
  shows "isInputHidden st' \<and>
         (process_requests br' \<noteq> process_requests br \<longrightarrow>
            (\<exists>n. ev = TriggerSendProp n \<and> n \<noteq> prop_triggerSend p \<and> 0 < n))"
proof (cases ev)
  case (ClickWinner r)
  with assms show ?thesis
    by (cases r)
       (auto simp: handleSelectWinner_def handleSelectWinner_try_def Let_def
          process_requests_post winner_request_def console_error_def split: if_splits)
next
  case ClickDismiss
  with assms show ?thesis
    by (auto simp: process_requests_def handleDismiss_requests split: if_splits)
next
  case ClickChatIcon
  with assms show ?thesis by (auto simp: handleIconClick_def split: if_splits)
next
  case (MasterPromptProp v)
  with assms show ?thesis by (auto simp: Let_def masterPrompt_effect_def split: if_splits)
next
  case (TriggerSendProp n)
  with assms show ?thesis
    using handleSend_start_hidden [of "p\<lparr>hideInputFooter := 0 < n, prop_triggerSend := n\<rparr>" st br]
    by (auto simp: Let_def triggerSend_effect_def split: if_splits)
next
  case (KeyFetched r)
  with assms show ?thesis
    by (auto simp: fetchApiKey_def Let_def process_requests_post console_error_def
        split: sum.splits)
next
  case (ProcessSettled r)
  with assms show ?thesis by (auto simp: handleSend_settle_def Let_def split: sum.splits)
qed (use assms in auto)

lemma chat_run_hidden:
  "isInputHidden st \<Longrightarrow> chat_run up qs evs (p, st, br) = Some (p', st', br') \<Longrightarrow>
     isInputHidden st' \<and>
     ((\<forall>ev \<in> set evs. \<not> is_trigger ev) \<longrightarrow> process_requests br' = process_requests br)"
proof (induction evs arbitrary: p st br)
  case Nil
  then show ?case by simp
next
  case (Cons ev evs)
  from Cons.prems(2) obtain p1 st1 br1 where
    s: "chat_step up qs ev (p, st, br) = Some (p1, st1, br1)"
    and r: "chat_run up qs evs (p1, st1, br1) = Some (p', st', br')"
    by (auto split: option.splits)
  from chat_step_hidden [OF Cons.prems(1) s]
  have h: "isInputHidden st1"
    and q: "\<not> is_trigger ev \<Longrightarrow> process_requests br1 = process_requests br"
    by auto
  from Cons.IH [OF h r] q show ?case by auto
qed

text \<open>
  C7. When a send settles, with a reply or with an error, the input is hidden and the
  action buttons are shown. From a state with the input hidden, every run of events
  leaves it hidden; the events of the input and of the send button cannot happen
  there; and the only event that issues a further request to \<open>/api/process\<close> is a
  render with a new, positive value of the trigger counter.
\<close>

theorem first_send_is_terminal:
  "isInputHidden (handleSend_settle r st0) \<and> showButtons (handleSend_settle r st0) \<and>
   (isInputHidden st \<longrightarrow>
      chat_step up qs (InputChange v) (p, st, br) = None \<and>
      chat_step up qs (InputKeyDown key shiftKey) (p, st, br) = None \<and>
      chat_step up qs ClickSendButton (p, st, br) = None) \<and>
   (isInputHidden st \<and> chat_run up qs evs (p, st, br) = Some (p', st', br') \<longrightarrow>
      isInputHidden st' \<and>
      ((\<forall>ev \<in> set evs. \<not> is_trigger ev) \<longrightarrow> process_requests br' = process_requests br)) \<and>
   (isInputHidden st \<and> chat_step up qs ev (p, st, br) = Some (p1, st1, br1) \<and>
    process_requests br1 \<noteq> process_requests br \<longrightarrow>
      (\<exists>n. ev = TriggerSendProp n \<and> n \<noteq> prop_triggerSend p \<and> 0 < n))"
proof (intro conjI impI)
  show "isInputHidden (handleSend_settle r st0)" "showButtons (handleSend_settle r st0)"
    by (simp_all add: handleSend_settle_def Let_def split: sum.splits)
next
  assume "isInputHidden st"
  then show "chat_step up qs (InputChange v) (p, st, br) = None"
    "chat_step up qs (InputKeyDown key shiftKey) (p, st, br) = None"
    "chat_step up qs ClickSendButton (p, st, br) = None"
    by simp_all
next
  assume a: "isInputHidden st \<and> chat_run up qs evs (p, st, br) = Some (p', st', br')"
  then show "isInputHidden st'" using chat_run_hidden by blast
  assume "\<forall>ev \<in> set evs. \<not> is_trigger ev"
  with a show "process_requests br' = process_requests br" using chat_run_hidden by blast
next
  assume "isInputHidden st \<and> chat_step up qs ev (p, st, br) = Some (p1, st1, br1) \<and>
    process_requests br1 \<noteq> process_requests br"
  then show "\<exists>n. ev = TriggerSendProp n \<and> n \<noteq> prop_triggerSend p \<and> 0 < n"
    using chat_step_hidden by blast
qed

text \<open>
  On the sample instance after its first reply: the input is hidden, typing cannot
  happen, a run without a trigger issues nothing, and a render with the counter at 1
  issues one more request.
\<close>

theorem first_send_is_terminal_witness:
  "isInputHidden demo_done \<and>
   chat_step (\<lambda>u. True) engine_finds_nothing (InputChange (ascii ''more'')) (demo_props, demo_done, initial_browser)
     = None \<and>
   (\<exists>c. chat_run (\<lambda>u. True) engine_finds_nothing [MasterPromptProp (ascii ''more''), ClickDismiss]
           (demo_props, demo_done, initial_browser) = Some c \<and>
        isInputHidden (fst (snd c)) \<and> process_requests (snd (snd c)) = []) \<and>
   (\<exists>c. chat_step (\<lambda>u. True) engine_finds_nothing (TriggerSendProp 1) (demo_props, demo_done, initial_browser)
           = Some c \<and>
        process_requests (snd (snd c))
          = [process_request (demo_props\<lparr>hideInputFooter := True, prop_triggerSend := 1\<rparr>)
               demo_done (ascii ''sk-1'')])"
proof -
  have h: "isInputHidden demo_done"
    unfolding demo_done_def using first_send_is_terminal by blast
  have b: "showButtons demo_done"
    unfolding demo_done_def using first_send_is_terminal by blast
  have i: "chat_step (\<lambda>u. True) engine_finds_nothing (InputChange (ascii ''more''))
             (demo_props, demo_done, initial_browser) = None"
    using first_send_is_terminal h by blast
  have pm: "prop_masterPrompt demo_props = ascii ''hi''"
    by (simp add: demo_props_def props_of_def demo_app_def initial_app_def)
  have c: "chat_run (\<lambda>u. True) engine_finds_nothing [MasterPromptProp (ascii ''more''), ClickDismiss]
           (demo_props, demo_done, initial_browser)
         = Some (demo_props\<lparr>prop_masterPrompt := ascii ''more''\<rparr>,
                 demo_done\<lparr>userPrompt := ascii ''more''\<rparr>,
                 handleDismiss engine_finds_nothing (demo_props\<lparr>prop_masterPrompt := ascii ''more''\<rparr>)
                   initial_browser)"
    using b pm by (simp add: Let_def masterPrompt_effect_def)
  have e: "process_requests initial_browser = []"
    by (simp add: process_requests_def initial_browser_def)
  have r: "isInputHidden (demo_done\<lparr>userPrompt := ascii ''more''\<rparr>) \<and>
           process_requests (handleDismiss engine_finds_nothing (demo_props\<lparr>prop_masterPrompt := ascii ''more''\<rparr>)
                               initial_browser) = []"
    using first_send_is_terminal [where st = demo_done and up = "\<lambda>u. True"
        and qs = engine_finds_nothing and p = demo_props and br = initial_browser
        and evs = "[MasterPromptProp (ascii ''more''), ClickDismiss]"
        and p' = "demo_props\<lparr>prop_masterPrompt := ascii ''more''\<rparr>"
        and st' = "demo_done\<lparr>userPrompt := ascii ''more''\<rparr>"
        and br' = "handleDismiss engine_finds_nothing
                     (demo_props\<lparr>prop_masterPrompt := ascii ''more''\<rparr>) initial_browser"]
      h c e by simp
  have d: "userPrompt demo_done = ascii ''hi''"
    by (simp add: demo_done_def handleSend_settle_def handleSend_try_def demo_reply_def
          demo_ok_def response_ok_def or_else_def demo_chat_def initial_chat_def
          demo_props_def props_of_def demo_app_def initial_app_def)
  have t: "trim (ascii ''hi'') \<noteq> []"
    by (simp add: trim_def ascii_def is_white_space_def)
  have k: "encryptedApiKey demo_props = Some (ascii ''sk-1'')" "prop_triggerSend demo_props = 0"
    "ascii ''sk-1'' \<noteq> []"
    by (simp_all add: demo_props_def props_of_def demo_model_def demo_app_def initial_app_def
          ascii_def)
  have s: "chat_step (\<lambda>u. True) engine_finds_nothing (TriggerSendProp 1) (demo_props, demo_done, initial_browser)
           = Some (demo_props\<lparr>hideInputFooter := True, prop_triggerSend := 1\<rparr>,
                   demo_done\<lparr>isLoading := True, error := None\<rparr>,
                   post (process_request
                           (demo_props\<lparr>hideInputFooter := True, prop_triggerSend := 1\<rparr>)
                           demo_done (ascii ''sk-1'')) initial_browser)"
    using handleSend_start_sends [of demo_done
        "demo_props\<lparr>hideInputFooter := True, prop_triggerSend := 1\<rparr>" "ascii ''sk-1''"
        initial_browser] d t k
    by (simp add: Let_def triggerSend_effect_def)
  have q: "process_requests (post (process_request
                           (demo_props\<lparr>hideInputFooter := True, prop_triggerSend := 1\<rparr>)
                           demo_done (ascii ''sk-1'')) initial_browser)
           = [process_request (demo_props\<lparr>hideInputFooter := True, prop_triggerSend := 1\<rparr>)
               demo_done (ascii ''sk-1'')]"
    by (simp add: process_requests_post e process_request_def)
  show ?thesis using h i c r s q by simp
qed

subsection \<open>The key fetch of an instance\<close>

lemma chat_step_requests:
  assumes "chat_step up qs ev (p, st, br) = Some (p', st', br')"
  shows "\<exists>qs. requests br' = requests br @ qs \<and>
           (\<forall>q \<in> set qs. endpoint q = ''/api/process'' \<longrightarrow>
              (\<exists>key. encryptedApiKey p' = Some key \<and> q = process_request p' st key))"
proof (cases ev)
  case (InputKeyDown key shiftKey)
  with assms show ?thesis
    using handleSend_start_requests [of p st br] by (auto split: if_splits)
next
  case ClickSendButton
  with assms show ?thesis
    using handleSend_start_requests [of p st br] by (auto split: if_splits)
next
  case (ClickWinner r)
  with assms show ?thesis
    by (cases r)
       (auto simp: handleSelectWinner_def handleSelectWinner_try_def Let_def post_def
          winner_request_def console_error_def split: if_splits)
next
  case ClickDismiss
  with assms show ?thesis by (auto simp: handleDismiss_requests split: if_splits)
next
  case ClickChatIcon
  with assms show ?thesis by (auto simp: handleIconClick_def split: if_splits)
next
  case (MasterPromptProp v)
  with assms show ?thesis by (auto simp: Let_def split: if_splits)
next
  case (TriggerSendProp n)
  with assms show ?thesis
    using handleSend_start_requests
      [of "p\<lparr>hideInputFooter := 0 < n, prop_triggerSend := n\<rparr>" st br]
    by (auto simp: Let_def triggerSend_effect_def split: if_splits)
next
  case (KeyFetched r)
  with assms show ?thesis
    by (auto simp: fetchApiKey_def Let_def post_def console_error_def split: sum.splits)
qed (use assms in \<open>auto split: if_splits\<close>)

text \<open>
  C8. When the key fetch of an instance gets an ok response with a non-empty
  \<open>apiKey\<close>, the call of the undeclared \<open>setEncryptedApiKey\<close> throws a ReferenceError
  inside the \<open>try\<close> block; the \<open>catch\<close> logs it and the effect ends normally. Whatever
  the fetch gives, the effect changes neither the props nor the state of the instance:
  only App sets the key prop. Every request to \<open>/api/process\<close> that an event of the
  instance issues carries the key of the props of that render.
\<close>

theorem fetched_key_never_used:
  "(response_ok status \<and> truthy k \<longrightarrow>
      fetchApiKey_try (Resolved status (JsonValue k))
        = Inl (ReferenceError (ascii ''setEncryptedApiKey is not defined'')) \<and>
      fetchApiKey p (Resolved status (JsonValue k)) (st, br)
        = (Inr (), st,
           console_error (ascii ''Failed to load API key:'')
             (ReferenceError (ascii ''setEncryptedApiKey is not defined''))
             (post (key_request p) br))) \<and>
   fst (fetchApiKey p r (st, br)) = Inr () \<and>
   (\<exists>br1. chat_step up qs (KeyFetched r) (p, st, br) = Some (p, st, br1)) \<and>
   (chat_step up qs ev (p, st, br) = Some (p', st', br') \<longrightarrow>
      ((\<forall>k'. ev \<noteq> KeyProp k') \<longrightarrow> encryptedApiKey p' = encryptedApiKey p) \<and>
      (\<exists>qs. requests br' = requests br @ qs \<and>
         (\<forall>q \<in> set qs. endpoint q = ''/api/process'' \<longrightarrow>
            (\<exists>key. encryptedApiKey p' = Some key \<and> q = process_request p' st key))))"
proof (intro conjI impI)
  assume a: "response_ok status \<and> truthy k"
  then show "fetchApiKey_try (Resolved status (JsonValue k))
        = Inl (ReferenceError (ascii ''setEncryptedApiKey is not defined''))"
    by (simp add: fetchApiKey_try_def)
  from a show "fetchApiKey p (Resolved status (JsonValue k)) (st, br)
        = (Inr (), st,
           console_error (ascii ''Failed to load API key:'')
             (ReferenceError (ascii ''setEncryptedApiKey is not defined''))
             (post (key_request p) br))"
    by (simp add: fetchApiKey_def fetchApiKey_try_def key_request_def Let_def)
next
  show "fst (fetchApiKey p r (st, br)) = Inr ()"
    by (simp add: fetchApiKey_def Let_def split: sum.splits)
  show "\<exists>br1. chat_step up qs (KeyFetched r) (p, st, br) = Some (p, st, br1)"
    by (simp add: fetchApiKey_def Let_def split: sum.splits)
next
  assume s: "chat_step up qs ev (p, st, br) = Some (p', st', br')"
  show "encryptedApiKey p' = encryptedApiKey p" if "\<forall>k'. ev \<noteq> KeyProp k'"
    using s that by (cases ev) (auto simp: Let_def split: if_splits)
  from chat_step_requests [OF s]
  show "\<exists>qs. requests br' = requests br @ qs \<and>
         (\<forall>q \<in> set qs. endpoint q = ''/api/process'' \<longrightarrow>
            (\<exists>key. encryptedApiKey p' = Some key \<and> q = process_request p' st key))" .
qed

theorem fetched_key_never_used_witness:
  "fetchApiKey demo_props (demo_ok (Some (ascii ''sk-from-server''))) (demo_chat, initial_browser)
     = (Inr (), demo_chat,
        initial_browser
          \<lparr>requests := [key_request demo_props],
           console := [(ascii ''Failed to load API key:'',
                        ReferenceError (ascii ''setEncryptedApiKey is not defined''))]\<rparr>) \<and>
   (\<exists>br1. chat_run (\<lambda>u. True) engine_finds_nothing
            [KeyFetched (demo_ok (Some (ascii ''sk-from-server''))), ClickSendButton]
            (demo_props, demo_chat, initial_browser)
         = Some (demo_props, demo_chat\<lparr>isLoading := True, error := None\<rparr>, br1) \<and>
         process_requests br1
           = [\<lparr>endpoint = ''/api/process'', credentials_include = False,
               body = [(''modelIdentifier'', ascii ''openai-gpt-4o-1700000000000-0-a1b2c''),
                       (''prompt'', ascii ''hi''), (''encryptedApiKey'', ascii ''sk-1'')]\<rparr>])"
proof -
  have o: "response_ok 200 \<and> truthy (Some (ascii ''sk-from-server''))"
    by (simp add: response_ok_def truthy_def ascii_def)
  have f: "fetchApiKey demo_props (demo_ok (Some (ascii ''sk-from-server'')))
             (demo_chat, initial_browser)
           = (Inr (), demo_chat,
              console_error (ascii ''Failed to load API key:'')
                (ReferenceError (ascii ''setEncryptedApiKey is not defined''))
                (post (key_request demo_props) initial_browser))"
    unfolding demo_ok_def
    using fetched_key_never_used [of 200 "Some (ascii ''sk-from-server'')" demo_props demo_chat
        initial_browser] o by blast
  have c: "userPrompt demo_chat = ascii ''hi''" "\<not> isLoading demo_chat"
    "\<not> isInputHidden demo_chat"
    by (simp_all add: demo_chat_def initial_chat_def demo_props_def props_of_def demo_app_def
          initial_app_def)
  have t: "trim (ascii ''hi'') \<noteq> []"
    by (simp add: trim_def ascii_def is_white_space_def)
  have k: "encryptedApiKey demo_props = Some (ascii ''sk-1'')" "ascii ''sk-1'' \<noteq> []"
    "modelIdentifier demo_props = ascii ''openai-gpt-4o-1700000000000-0-a1b2c''"
    by (simp_all add: demo_props_def props_of_def demo_model_def ascii_def)
  show ?thesis
    using f c t k
      handleSend_start_sends [of demo_chat demo_props "ascii ''sk-1''"
        "console_error (ascii ''Failed to load API key:'')
                (ReferenceError (ascii ''setEncryptedApiKey is not defined''))
                (post (key_request demo_props) initial_browser)"]
    by (simp add: process_requests_def process_request_def post_def console_error_def
          initial_browser_def key_request_def)
qed

subsection \<open>The master send\<close>

lemma triggerSend_handleSendMasterPrompt:
  "triggerSend (handleSendMasterPrompt s) =
     (if trim (masterPrompt s) \<noteq> [] then triggerSend s + 1 else triggerSend s)"
  by (simp add: handleSendMasterPrompt_def)

lemma triggerSend_app_step:
  "triggerSend s \<le> triggerSend (fst (app_step e ev (s, br)))"
proof (cases ev)
  case (LoadKeys rs)
  then show ?thesis
    by (simp add: loadKeysForModels_def Let_def split: prod.splits)
next
  case (MasterKeyDown k)
  then show ?thesis by (simp add: handleKeyPress_def triggerSend_handleSendMasterPrompt)
next
  case (ClickIcon n r)
  then show ?thesis
    by (simp add: handleIconSelect_def Let_def split: prod.splits sum.splits)
next
  case (ClickSave r)
  then show ?thesis
    by (simp add: handleSaveApiKey_def Let_def
        split: prod.splits sum.splits option.splits save_result.splits)
qed (simp_all add: load_consent_def load_active_models_def handleConsent_def handleReject_def
       handleMasterPromptChange_def handleAddModel_def handleCloseAddModal_def
       handleModelSelect_def reset_add_form_def Let_def)

lemma instanceCount_app_step:
  assumes "instanceCount s = 1"
  shows "instanceCount (fst (app_step e ev (s, br))) = 1"
proof (cases ev)
  case (LoadKeys rs)
  with assms show ?thesis
    by (simp add: loadKeysForModels_def Let_def split: prod.splits)
next
  case (MasterKeyDown k)
  with assms show ?thesis by (simp add: handleKeyPress_def handleSendMasterPrompt_def)
next
  case (ClickIcon n r)
  with assms show ?thesis
    by (simp add: handleIconSelect_def Let_def split: prod.splits sum.splits)
next
  case (ClickSave r)
  with assms show ?thesis
    by (simp add: handleSaveApiKey_def Let_def
        split: prod.splits sum.splits option.splits save_result.splits)
qed (use assms in \<open>simp_all add: load_consent_def load_active_models_def handleConsent_def
       handleReject_def handleMasterPromptChange_def handleAddModel_def
       handleCloseAddModal_def handleModelSelect_def reset_add_form_def Let_def\<close>)

lemma run_trigger_effects_requests:
  "0 < triggerSend s \<Longrightarrow> length cs = length ms \<Longrightarrow>
     requests (snd (run_trigger_effects s ms cs br)) =
       requests br @ map (request_of s) (filter sendable (zip ms cs))"
proof (induction s ms cs br rule: run_trigger_effects.induct)
  case (1 s m ms c cs br)
  obtain c' br1 where t: "triggerSend_effect (props_of s m) (c, br) = (c', br1)"
    by (cases "triggerSend_effect (props_of s m) (c, br)")
  have r: "requests br1 = requests br @ (if sendable (m, c) then [request_of s (m, c)] else [])"
    using t "1.prems"(1)
    by (auto simp: triggerSend_effect_def handleSend_start_def props_of_def post_def truthy_def
        split: option.splits if_splits)
  from "1.IH" [OF t [symmetric]] "1.prems"
  have "requests (snd (run_trigger_effects s ms cs br1)) =
          requests br1 @ map (request_of s) (filter sendable (zip ms cs))"
    by simp
  with t r show ?case by (auto split: prod.splits)
qed simp_all

lemma master_send_requests:
  assumes "trim (masterPrompt (app pg)) \<noteq> []"
    and "length (chats pg) = length (activeModels (app pg))"
  shows "requests (world (master_send pg)) =
           requests (world pg)
             @ map (request_of (app (master_send pg)))
                 (filter sendable (zip (activeModels (app pg)) (chats pg)))"
proof -
  let ?s = "handleSendMasterPrompt (app pg)"
  have t: "triggerSend ?s = triggerSend (app pg) + 1"
    using assms(1) by (simp add: triggerSend_handleSendMasterPrompt)
  have a: "activeModels ?s = activeModels (app pg)"
    by (simp add: handleSendMasterPrompt_def)
  have m: "master_send pg =
             \<lparr>app = ?s,
              chats = fst (run_trigger_effects ?s (activeModels ?s) (chats pg) (world pg)),
              world = snd (run_trigger_effects ?s (activeModels ?s) (chats pg) (world pg))\<rparr>"
    using t by (simp add: master_send_def Let_def split: prod.splits)
  have "0 < triggerSend ?s" using t by simp
  from run_trigger_effects_requests [OF this, of "chats pg" "activeModels ?s" "world pg"]
    assms(2) a m
  show ?thesis by simp
qed

text \<open>
  C1, as the claim states it, fails: an instance whose key is missing issues no
  request when the master prompt is sent.
\<close>

theorem master_send_keyless_instance_silent:
  "trim (masterPrompt (app (demo_page [demo_keyless]))) \<noteq> [] \<and>
   length (activeModels (app (demo_page [demo_keyless]))) = 1 \<and>
   triggerSend (app (demo_page [demo_keyless])) = 0 \<and>
   triggerSend (app (master_send (demo_page [demo_keyless]))) = 1 \<and>
   requests (world (master_send (demo_page [demo_keyless]))) = [] \<and>
   map aiResponse (chats (master_send (demo_page [demo_keyless])))
     = [ascii ''API key missing. Please add it first.'']"
  by (simp add: demo_page_def demo_app_def initial_app_def demo_keyless_def master_send_def
        handleSendMasterPrompt_def Let_def trim_def ascii_def is_white_space_def
        triggerSend_effect_def handleSend_start_def props_of_def initial_chat_def
        initial_browser_def msg_key_missing_def)

text \<open>
  C1, amended. A master send while the master prompt is not blank increases
  \<open>triggerSend\<close> by exactly one, and no event of the coordinator ever decreases the
  counter. After that increment every active instance whose own prompt is not blank and
  whose key is present issues exactly one request to \<open>/api/process\<close>, in the order of
  \<open>activeModels\<close>, and the other instances issue none. With a blank master prompt the
  send changes nothing.
\<close>

theorem master_send_fans_out:
  "triggerSend s \<le> triggerSend (fst (app_step e ev (s, br))) \<and>
   triggerSend (app pg) \<le> triggerSend (app (master_send pg)) \<and>
   (trim (masterPrompt (app pg)) \<noteq> [] \<longrightarrow>
      triggerSend (app (master_send pg)) = triggerSend (app pg) + 1 \<and>
      (length (chats pg) = length (activeModels (app pg)) \<longrightarrow>
         requests (world (master_send pg)) =
           requests (world pg)
             @ map (request_of (app (master_send pg)))
                 (filter sendable (zip (activeModels (app pg)) (chats pg))))) \<and>
   (trim (masterPrompt (app pg)) = [] \<longrightarrow> master_send pg = pg)"
proof (intro conjI impI)
  show "triggerSend s \<le> triggerSend (fst (app_step e ev (s, br)))"
    by (rule triggerSend_app_step)
  have a: "app (master_send pg) = handleSendMasterPrompt (app pg)"
    by (simp add: master_send_def Let_def split: prod.splits)
  show "triggerSend (app pg) \<le> triggerSend (app (master_send pg))"
    by (simp add: a triggerSend_handleSendMasterPrompt)
  show "triggerSend (app (master_send pg)) = triggerSend (app pg) + 1"
    if "trim (masterPrompt (app pg)) \<noteq> []"
    using that by (simp add: a triggerSend_handleSendMasterPrompt)
  show "requests (world (master_send pg)) =
           requests (world pg)
             @ map (request_of (app (master_send pg)))
                 (filter sendable (zip (activeModels (app pg)) (chats pg)))"
    if "trim (masterPrompt (app pg)) \<noteq> []"
      and "length (chats pg) = length (activeModels (app pg))"
    using that by (rule master_send_requests)
  show "master_send pg = pg" if "trim (masterPrompt (app pg)) = []"
    using that by (simp add: master_send_def handleSendMasterPrompt_def)
qed

text \<open>
  On a page with two instances, the second without a key: the counter goes from 0 to 1
  and only the first instance issues a request.
\<close>

theorem master_send_fans_out_witness:
  "triggerSend (app (master_send (demo_page [demo_model, demo_keyless]))) = 1 \<and>
   requests (world (master_send (demo_page [demo_model, demo_keyless])))
     = [\<lparr>endpoint = ''/api/process'', credentials_include = False,
         body = [(''modelIdentifier'', ascii ''openai-gpt-4o-1700000000000-0-a1b2c''),
                 (''prompt'', ascii ''hi''), (''encryptedApiKey'', ascii ''sk-1'')]\<rparr>]"
proof -
  have p: "trim (masterPrompt (app (demo_page [demo_model, demo_keyless]))) \<noteq> []"
    "length (chats (demo_page [demo_model, demo_keyless]))
       = length (activeModels (app (demo_page [demo_model, demo_keyless])))"
    "triggerSend (app (demo_page [demo_model, demo_keyless])) = 0"
    "requests (world (demo_page [demo_model, demo_keyless])) = []"
    by (simp_all add: demo_page_def demo_app_def initial_app_def trim_def ascii_def
          is_white_space_def initial_browser_def)
  have z: "filter sendable (zip (activeModels (app (demo_page [demo_model, demo_keyless])))
                                (chats (demo_page [demo_model, demo_keyless])))
           = [(demo_model, initial_chat (props_of (demo_app\<lparr>activeModels := [demo_model, demo_keyless]\<rparr>) demo_model))]"
    by (simp add: demo_page_def demo_app_def initial_app_def demo_keyless_def demo_model_def
          initial_chat_def props_of_def truthy_def trim_def ascii_def is_white_space_def)
  have q: "request_of s (demo_model, initial_chat (props_of (demo_app\<lparr>activeModels := [demo_model, demo_keyless]\<rparr>) demo_model))
           = \<lparr>endpoint = ''/api/process'', credentials_include = False,
         body = [(''modelIdentifier'', ascii ''openai-gpt-4o-1700000000000-0-a1b2c''),
                 (''prompt'', ascii ''hi''), (''encryptedApiKey'', ascii ''sk-1'')]\<rparr>" for s
    by (simp add: process_request_def props_of_def demo_model_def initial_chat_def
          demo_app_def initial_app_def)
  show ?thesis
    using master_send_fans_out [of _ _ _ _ "demo_page [demo_model, demo_keyless]"] p z q
    by simp
qed

subsection \<open>Dismissing an instance\<close>

lemma first_index_at:
  "i < length ns \<Longrightarrow> P (ns ! i) \<Longrightarrow> (\<And>j. j < i \<Longrightarrow> \<not> P (ns ! j)) \<Longrightarrow>
     first_index P ns = Some i"
proof (induction ns arbitrary: i)
  case Nil
  then show ?case by simp
next
  case (Cons n ns)
  show ?case
  proof (cases i)
    case 0
    with Cons.prems show ?thesis by simp
  next
    case (Suc k)
    with Cons.prems have k: "k < length ns" and pk: "P (ns ! k)" by simp_all
    have n: "\<not> P n" using Cons.prems(3) [of 0] Suc by simp
    have e: "\<And>j. j < k \<Longrightarrow> \<not> P (ns ! j)" using Cons.prems(3) Suc by fastforce
    from Cons.IH [OF k pk e] n Suc show ?thesis by simp
  qed
qed

text \<open>
  Whatever the identifier and the selector engine, a dismiss changes neither the
  coordinator nor any instance, and of the browser only the chat containers, the
  other elements and the log of uncaught exceptions: localStorage is as before.
\<close>

lemma dismiss_frame:
  "app (dismiss qs i pg) = app pg \<and> chats (dismiss qs i pg) = chats pg \<and>
   world (dismiss qs i pg) =
     (world pg)\<lparr>uncaught := uncaught (world (dismiss qs i pg)),
               containers := containers (world (dismiss qs i pg)),
               hidden_elsewhere := hidden_elsewhere (world (dismiss qs i pg))\<rparr> \<and>
   ls_activeModels (world (dismiss qs i pg)) = ls_activeModels (world pg) \<and>
   ls_apiKeyConsent (world (dismiss qs i pg)) = ls_apiKeyConsent (world pg)"
  using handleDismiss_frame [of qs "props_of (app pg) (activeModels (app pg) ! i)" "world pg"]
  by (simp add: dismiss_def handleDismiss_def
      split: sum.splits option.splits element.splits)

text \<open>
  With an identifier of plain code units that no earlier instance carries, on a
  well-formed page, the dismiss hides the container of the instance and nothing else.
\<close>

lemma dismiss_plain_identifier:
  assumes "page_ok pg" and "i < length (activeModels (app pg))"
    and "showButtons (chats pg ! i)"
    and "list_all css_plain (m_id (activeModels (app pg) ! i))"
    and "\<And>j. j < i \<Longrightarrow> m_id (activeModels (app pg) ! j) \<noteq> m_id (activeModels (app pg) ! i)"
  shows "world (dismiss qs i pg) =
           (world pg)\<lparr>containers :=
              (containers (world pg))[i := (containers (world pg) ! i)\<lparr>display_none := True\<rparr>]\<rparr>"
proof -
  let ?ns = "containers (world pg)" and ?ms = "activeModels (app pg)"
  from assms(1) have m: "map data_model ?ns = map m_id ?ms"
    and c: "length (chats pg) = length ?ms"
    by (simp_all add: page_ok_def)
  from m have l: "length ?ns = length ?ms" by (metis length_map)
  have d: "data_model (?ns ! j) = m_id (?ms ! j)" if "j < length ?ms" for j
    using m l that by (metis nth_map)
  have "first_index (\<lambda>n. data_model n = m_id (?ms ! i)) ?ns = Some i"
  proof (rule first_index_at)
    show "i < length ?ns" using assms(2) l by simp
    show "data_model (?ns ! i) = m_id (?ms ! i)" using d assms(2) by simp
    show "data_model (?ns ! j) \<noteq> m_id (?ms ! i)" if "j < i" for j
      using d [of j] assms(2,5) that by simp
  qed
  with assms(2,3,4) c l show ?thesis
    by (simp add: dismiss_def handleDismiss_def querySelector_data_model_def props_of_def
          hide_at_def)
qed

lemma page_load_consented:
  assumes "ls_apiKeyConsent br = Some (ascii ''true'')" and "ls_activeModels br = Some ms"
  shows "activeModels (app (page_load br)) = ms \<and>
         containers (world (page_load br))
           = map (\<lambda>m. \<lparr>data_model = m_id m, display_none = False\<rparr>) ms \<and>
         ls_activeModels (world (page_load br)) = Some ms"
  using assms
  by (cases ms)
     (simp_all add: page_load_def load_consent_def load_active_models_def initial_app_def
        render_dom_def Let_def)

text \<open>
  Since localStorage is untouched, the page load after a dismiss renders a container,
  not hidden, for every stored record.
\<close>

lemma dismiss_then_reload:
  assumes "ls_apiKeyConsent (world pg) = Some (ascii ''true'')"
    and "ls_activeModels (world pg) = Some ms"
  shows "activeModels (app (page_load (world (dismiss qs i pg)))) = ms \<and>
         containers (world (page_load (world (dismiss qs i pg))))
           = map (\<lambda>m. \<lparr>data_model = m_id m, display_none = False\<rparr>) ms"
  using page_load_consented [of "world (dismiss qs i pg)" ms] dismiss_frame [of qs i pg] assms
  by simp

text \<open>The add-model flow builds the identifier from the name the model list gave.\<close>

lemma quoted_identifier_built:
  "activeModels (fst (handleSaveApiKey demo_env (demo_ok ())
      (demo_app\<lparr>selectedModel := Some (ModelString quoted_name), instanceCount := 1\<rparr>,
       initial_browser)))
     = [demo_model, demo_quoted]"
proof -
  let ?s = "demo_app\<lparr>selectedModel := Some (ModelString quoted_name), instanceCount := 1\<rparr>"
  have ok: "saveProviderApiKey_try (demo_ok ()) = Inr SaveOk"
    by (simp add: saveProviderApiKey_try_def demo_ok_def response_ok_def)
  have v: "trim (apiKeyInput ?s) \<noteq> []" "selectedModel ?s = Some (ModelString quoted_name)"
    "model_truthy (ModelString quoted_name)" "selectedProvider ?s = Some (ascii ''openai'')"
    "ascii ''openai'' \<noteq> []"
    using demo_app_valid
    by (simp_all add: demo_app_def initial_app_def model_truthy_def quoted_name_def)
  have d: "dec 1700000000000 = ascii ''1700000000000''" "dec 0 = ascii ''0''"
    by (simp_all add: dec.simps ascii_def)
  have n: "Array_from (instanceCount ?s)
             (new_instance demo_env (ascii ''openai'')
                (case ModelString quoted_name of ModelString n \<Rightarrow> n | ModelObject n \<Rightarrow> n)
                (apiKeyInput ?s)) = Inr [demo_quoted]"
    by (simp add: Array_from_def new_instance_def demo_getProviderURL demo_env_def icon_of_def
          demo_quoted_def demo_model_def demo_app_def initial_app_def d)
       (simp add: ascii_def)
  show ?thesis
    using handleSaveApiKey_added [OF v ok n, of initial_browser]
    by (simp add: demo_app_def initial_app_def)
qed


text \<open>
  C6 holds for an identifier of plain code units, and fails on the code otherwise: the
  identifier goes into the selector without escaping. On a page of two answered
  instances, the second built from a model name with double quotes, the selector
  text is not a selector: \<open>querySelector\<close> throws, the exception leaves the handler
  and no container is hidden. With a model name with backslashes the selector stands
  for another text, which no element carries: the fallback hides the first chat
  container, which is the container of the other instance.
\<close>

theorem dismiss_unescaped_identifier:
  "\<not> list_all css_plain (m_id demo_quoted) \<and>
   containers (world (dismiss engine_rejects 1 (demo_answered [demo_model, demo_quoted])))
     = [\<lparr>data_model = m_id demo_model, display_none = False\<rparr>,
        \<lparr>data_model = m_id demo_quoted, display_none = False\<rparr>] \<and>
   uncaught (world (dismiss engine_rejects 1 (demo_answered [demo_model, demo_quoted])))
     = [SyntaxError (selector_text (m_id demo_quoted) @ ascii '' is not a valid selector'')] \<and>
   \<not> list_all css_plain (m_id demo_slashed) \<and>
   containers (world (dismiss engine_finds_nothing 1
                        (demo_answered [demo_model, demo_slashed])))
     = [\<lparr>data_model = m_id demo_model, display_none = True\<rparr>,
        \<lparr>data_model = m_id demo_slashed, display_none = False\<rparr>]"
proof -
  have b: "showButtons demo_done"
    by (simp add: demo_done_def handleSend_settle_def Let_def split: sum.splits)
  have q: "\<not> list_all css_plain (m_id demo_quoted)"
    by (simp add: demo_quoted_def quoted_name_def css_plain_def)
  have s: "\<not> list_all css_plain (m_id demo_slashed)"
    by (simp add: demo_slashed_def slashed_name_def css_plain_def)
  have c: "containers (world (demo_answered ms))
             = map (\<lambda>m. \<lparr>data_model = m_id m, display_none = False\<rparr>) ms" for ms
    by (simp add: demo_answered_def demo_page_def render_dom_def demo_app_def initial_app_def)
  have u: "uncaught (world (demo_answered ms)) = []" for ms
    by (simp add: demo_answered_def demo_page_def initial_browser_def)
  have a: "activeModels (app (demo_answered ms)) = ms" "chats (demo_answered ms) = map (\<lambda>m. demo_done) ms"
    for ms
    by (simp_all add: demo_answered_def demo_page_def)
  have 1: "world (dismiss engine_rejects 1 (demo_answered [demo_model, demo_quoted]))
             = (world (demo_answered [demo_model, demo_quoted]))
                 \<lparr>uncaught := [SyntaxError (selector_text (m_id demo_quoted)
                                               @ ascii '' is not a valid selector'')]\<rparr>"
    using q b
    by (simp add: dismiss_def a handleDismiss_def querySelector_data_model_def props_of_def
          engine_rejects_def u)
  have 2: "world (dismiss engine_finds_nothing 1 (demo_answered [demo_model, demo_slashed]))
             = (world (demo_answered [demo_model, demo_slashed]))
                 \<lparr>containers := hide_at 0 (containers (world (demo_answered
                                                              [demo_model, demo_slashed])))\<rparr>"
    using s b
    by (simp add: dismiss_def a handleDismiss_def querySelector_data_model_def props_of_def
          engine_finds_nothing_def)
  show ?thesis
    unfolding 1 2 using q s by (simp add: c hide_at_def)
qed

end
